theory Spec2Isabelle
  imports Complex_Main "HOL-Library.Multiset" "HOL-Library.Sublist"
begin

section \<open>JavaScript values\<close>

text \<open>
  Strings are lists of characters, one \<^typ>\<open>char\<close> for one UTF-16 code unit of the
  JavaScript string (\<open>length\<close> is \<open>String.prototype.length\<close>, \<open>take n\<close> is
  \<open>substring(0, n)\<close> for \<open>n\<close> within the string). A value that reaches a place where a
  string is expected is either a string or something else; the something else is carried
  with the text \<open>String(v)\<close> gives, which is what \<open>localStorage.setItem\<close> stores for it.
\<close>

datatype js_value = JString string | JOther string

fun to_string :: "js_value \<Rightarrow> string" where
  "to_string (JString s) = s"
| "to_string (JOther s) = s"

text \<open>A caught exception: \<open>new Error(message)\<close> thrown by the module, a \<open>TypeError\<close> of the
  engine (reading a property of \<open>undefined\<close>), or a failure raised by the host (a rejected
  \<open>fetch\<close>, an aborted request, a body that does not parse, storage that is not there).\<close>

datatype js_error = Error string | TypeError | HostError string

text \<open>Truthiness of a string: every string but the empty one.\<close>

definition truthy :: "string \<Rightarrow> bool" where
  "truthy s = (s \<noteq> [])"

text \<open>Truthiness of a value that is \<open>null\<close>/\<open>undefined\<close> (\<open>None\<close>) or a string.\<close>

fun truthy_opt :: "string option \<Rightarrow> bool" where
  "truthy_opt None = False"
| "truthy_opt (Some s) = truthy s"

text \<open>\<open>String.prototype.includes\<close>.\<close>

fun str_includes :: "string \<Rightarrow> string \<Rightarrow> bool" where
  "str_includes [] sub = (sub = [])"
| "str_includes (c # cs) sub = (prefix sub (c # cs) \<or> str_includes cs sub)"

text \<open>Decimal text of a number, as a template literal prints it.\<close>

definition digit_char :: "nat \<Rightarrow> char" where
  "digit_char d = char_of (48 + d)"

fun string_of_nat :: "nat \<Rightarrow> string" where
  "string_of_nat n = (if n < 10 then [digit_char n] else string_of_nat (n div 10) @ [digit_char (n mod 10)])"

declare string_of_nat.simps [simp del]

section \<open>The embeddings module: environment and configuration\<close>

datatype environment = github_pages | local_development

fun environment_name :: "environment \<Rightarrow> string" where
  "environment_name github_pages = ''github_pages''"
| "environment_name local_development = ''local_development''"

text \<open>The default export of \<open>api-config.js\<close>, read only through
  \<open>localConfig?.JINA_CONFIG?.API_KEY\<close>: \<open>None\<close> when any link of the chain is missing.\<close>

datatype api_config = ApiConfig (config_API_KEY: "string option")

datatype json = JsonString string | JsonNumber int | JsonBool bool | JsonArray "json list"

text \<open>One call of \<open>fetch\<close>.\<close>

record request =
  url :: string
  http_method :: string
  headers :: "(string \<times> string) list"
  body :: "string \<rightharpoonup> json"
  timeout :: nat

record embedding_item =
  embedding_field :: "real list option"

text \<open>The parsed body: \<open>data.data\<close> is \<open>None\<close> when the field is missing, falsy or not an
  array.\<close>

record api_data =
  data_field :: "embedding_item list option"
  usage_field :: "string option"

text \<open>A response: \<open>text()\<close> may reject (\<open>None\<close>), \<open>json()\<close> may reject or give a value whose
  \<open>data\<close> cannot be read (\<open>Inl\<close>).\<close>

record response =
  ok :: bool
  status_code :: nat
  text_body :: "string option"
  json_body :: "js_error + api_data"

datatype fetch_outcome = Rejects js_error | Resolves response

text \<open>
  What the module reads from outside and never writes: the page's host name,
  \<open>window.ENV_VARS?.JINA_API_KEY\<close>, what \<open>import('./api-config.js')\<close> resolves to
  (\<open>None\<close> when it rejects), the embedding provider behind \<open>fetch\<close> (what the
  \<open>n\<close>-th request of the session is answered with),
  \<open>config.MODELS.EMBEDDING.dimension\<close>, the clock, two helpers of \<open>utils.js\<close>, which
  is not among the sources: \<open>cleanText\<close>, and the error \<open>safeAsync\<close> throws in place
  of the one it caught, built from its tag and that error; and the message the engine
  gives a \<open>TypeError\<close>.
\<close>

record host =
  hostname :: string
  ENV_VARS_JINA_API_KEY :: "string option"
  api_config_module :: "api_config option"
  fetch :: "nat \<Rightarrow> request \<Rightarrow> fetch_outcome"
  corpus_dimension :: nat
  now :: string
  cleanText :: "string \<Rightarrow> string"
  rethrow :: "string \<Rightarrow> js_error \<Rightarrow> js_error"
  type_error_text :: string

text \<open>
  What the module writes: \<open>JINA_CONFIG.API_KEY\<close>, \<open>localApiConfig\<close>,
  \<open>configLoadAttempted\<close>, the page's \<open>localStorage\<close> (\<open>None\<close> when the browser gives
  none), and the requests sent so far, oldest first.
\<close>

record jina_state =
  API_KEY :: "string option"
  localApiConfig :: "api_config option"
  configLoadAttempted :: bool
  localStorage :: "(string \<rightharpoonup> string) option"
  sent :: "request list"

type_synonym 'a outcome = "(js_error + 'a) \<times> jina_state"

definition EMBEDDING_URL :: string where
  "EMBEDDING_URL = ''https://api.jina.ai/v1/embeddings''"

definition MODEL :: string where
  "MODEL = ''jina-embeddings-v3''"

definition DIMENSIONS :: int where
  "DIMENSIONS = 1024"

definition MAX_INPUT_LENGTH :: nat where
  "MAX_INPUT_LENGTH = 8192"

definition TIMEOUT :: nat where
  "TIMEOUT = 30000"

definition DEFAULT_OPTIONS :: "string \<rightharpoonup> json" where
  "DEFAULT_OPTIONS = [''normalized'' \<mapsto> JsonBool True, ''embedding_type'' \<mapsto> JsonString ''float'']"

definition detectEnvironment :: "host \<Rightarrow> environment" where
  "detectEnvironment h =
     (if str_includes (hostname h) ''github.io'' \<or> str_includes (hostname h) ''github.com''
      then github_pages else local_development)"

definition tryLoadLocalConfig :: "host \<Rightarrow> jina_state \<Rightarrow> api_config option \<times> jina_state" where
  "tryLoadLocalConfig h s =
     (if configLoadAttempted s then (localApiConfig s, s)
      else let s1 = s\<lparr>configLoadAttempted := True\<rparr>
           in case api_config_module h of
                Some m \<Rightarrow> (Some m, s1\<lparr>localApiConfig := Some m\<rparr>)
              | None \<Rightarrow> (None, s1))"

text \<open>\<open>safeAsync(fn, tag)\<close>: callers in the sources catch what the wrapped function throws
  (\<open>isEmbeddingModelReady\<close> around \<open>callJinaAPI\<close>), so a failure stays a failure.\<close>

definition safeAsync :: "host \<Rightarrow> string \<Rightarrow> 'a outcome \<Rightarrow> 'a outcome" where
  "safeAsync h tag r = (case r of (Inl e, s) \<Rightarrow> (Inl (rethrow h tag e), s) | (Inr v, s) \<Rightarrow> (Inr v, s))"

section \<open>API key management\<close>

definition setJinaApiKey :: "js_value \<Rightarrow> jina_state \<Rightarrow> unit outcome" where
  "setJinaApiKey apiKey s =
     (case apiKey of
        JOther _ \<Rightarrow> (Inl (Error ''Invalid API key provided''), s)
      | JString k \<Rightarrow>
          if \<not> truthy k then (Inl (Error ''Invalid API key provided''), s)
          else (Inr (), s\<lparr>API_KEY := Some k\<rparr>))"

definition storeApiKeyLocally :: "js_value \<Rightarrow> jina_state \<Rightarrow> unit outcome" where
  "storeApiKeyLocally apiKey s =
     (case localStorage s of
        Some store \<Rightarrow>
          setJinaApiKey apiKey (s\<lparr>localStorage := Some (store(''jina_api_key'' \<mapsto> to_string apiKey))\<rparr>)
      | None \<Rightarrow> (Inl (Error ''localStorage not available''), s))"

text \<open>\<open>localStorage.getItem\<close>; reading it where the browser gives no storage throws.\<close>

definition getItem :: "jina_state \<Rightarrow> string \<Rightarrow> js_error + string option" where
  "getItem s k = (case localStorage s of None \<Rightarrow> Inl (HostError ''localStorage'') | Some store \<Rightarrow> Inr (store k))"

definition getApiKey :: "host \<Rightarrow> jina_state \<Rightarrow> string option outcome" where
  "getApiKey h s =
     (let environment = detectEnvironment h in
      if truthy_opt (API_KEY s) then (Inr (API_KEY s), s)
      else
        let local =
              (if environment = local_development then
                 (case getItem s ''jina_api_key'' of
                    Inl e \<Rightarrow> (Inl e, s)
                  | Inr storedKey \<Rightarrow>
                      if truthy_opt storedKey then (Inr storedKey, s)
                      else
                        (case tryLoadLocalConfig h s of
                           (localConfig, s1) \<Rightarrow>
                             (case localConfig of
                                Some c \<Rightarrow>
                                  if truthy_opt (config_API_KEY c) then (Inr (config_API_KEY c), s1)
                                  else (Inr None, s1)
                              | None \<Rightarrow> (Inr None, s1))))
               else (Inr None, s))
        in case local of
             (Inl e, s1) \<Rightarrow> (Inl e, s1)
           | (Inr (Some k), s1) \<Rightarrow> (Inr (Some k), s1)
           | (Inr None, s1) \<Rightarrow>
               if environment = github_pages \<and> truthy_opt (ENV_VARS_JINA_API_KEY h)
               then (Inr (ENV_VARS_JINA_API_KEY h), s1)
               else (Inr None, s1))"

record key_status =
  hasKey :: bool
  key_source :: string
  keyPreview :: "string option"
  status_environment :: environment
  isProduction :: bool

definition getApiKeyStatus :: "host \<Rightarrow> jina_state \<Rightarrow> key_status outcome" where
  "getApiKeyStatus h s =
     (let environment = detectEnvironment h in
      case getApiKey h s of
        (Inl e, s1) \<Rightarrow> (Inl e, s1)
      | (Inr key, s1) \<Rightarrow>
          (let found = (\<lambda>src.
                 (Inr \<lparr>hasKey = truthy_opt key, key_source = src,
                       keyPreview = (case key of Some k \<Rightarrow> if truthy k then Some (take 10 k @ ''...'') else None
                                     | None \<Rightarrow> None),
                       status_environment = environment,
                       isProduction = (environment = github_pages)\<rparr>, s1))
           in if truthy_opt key then
                if truthy_opt (API_KEY s1) \<and> key = API_KEY s1 then found ''manual''
                else (case getItem s1 ''jina_api_key'' of
                        Inl e \<Rightarrow> (Inl e, s1)
                      | Inr stored \<Rightarrow>
                          if stored = key then found ''localStorage''
                          else if environment = github_pages then found ''github_environment''
                          else found ''api_config_file'')
              else found ''none''))"

section \<open>API communication\<close>

text \<open>The first argument of \<open>callJinaAPI\<close>: one value, or an array of values.\<close>

datatype js_input = Single js_value | Many "js_value list"

text \<open>\<open>Array.isArray(input) ? input : [input]\<close>\<close>

fun inputArray :: "js_input \<Rightarrow> js_value list" where
  "inputArray (Many vs) = vs"
| "inputArray (Single v) = [v]"

text \<open>The \<open>forEach\<close> over \<open>inputArray\<close>, from index \<open>index\<close> on: a value that is not a
  string throws, a string longer than \<open>MAX_INPUT_LENGTH\<close> is replaced by its
  \<open>substring(0, MAX_INPUT_LENGTH)\<close>.\<close>

fun truncate_inputs :: "nat \<Rightarrow> js_value list \<Rightarrow> js_error + string list" where
  "truncate_inputs index [] = Inr []"
| "truncate_inputs index (JOther v # rest) =
     Inl (Error (''Input '' @ string_of_nat index @ '' must be a string''))"
| "truncate_inputs index (JString text # rest) =
     (case truncate_inputs (Suc index) rest of
        Inl e \<Rightarrow> Inl e
      | Inr texts \<Rightarrow>
          Inr ((if length text > MAX_INPUT_LENGTH then take MAX_INPUT_LENGTH text else text) # texts))"

definition requestBody :: "string list \<Rightarrow> (string \<rightharpoonup> json) \<Rightarrow> (string \<rightharpoonup> json)" where
  "requestBody texts options =
     [''input'' \<mapsto> JsonArray (map JsonString texts),
      ''model'' \<mapsto> JsonString MODEL,
      ''dimensions'' \<mapsto> JsonNumber DIMENSIONS] ++ DEFAULT_OPTIONS ++ options"

definition no_key_message :: "key_status \<Rightarrow> string" where
  "no_key_message status =
     ''JINA API key not available. Environment: '' @ environment_name (status_environment status)
       @ '', Source: '' @ key_source status @ ''. Use setJinaApiKey() or storeApiKeyLocally().''"

text \<open>The function \<open>callJinaAPI\<close> wraps.\<close>

definition callJinaAPI_body :: "host \<Rightarrow> js_input \<Rightarrow> (string \<rightharpoonup> json) \<Rightarrow> jina_state \<Rightarrow> api_data outcome" where
  "callJinaAPI_body h input options s =
     (case getApiKey h s of
        (Inl e, s1) \<Rightarrow> (Inl e, s1)
      | (Inr None, s1) \<Rightarrow>
          (case getApiKeyStatus h s1 of
             (Inl e, s2) \<Rightarrow> (Inl e, s2)
           | (Inr status, s2) \<Rightarrow> (Inl (Error (no_key_message status)), s2))
      | (Inr (Some apiKey), s1) \<Rightarrow>
          if \<not> truthy apiKey then
            (case getApiKeyStatus h s1 of
               (Inl e, s2) \<Rightarrow> (Inl e, s2)
             | (Inr status, s2) \<Rightarrow> (Inl (Error (no_key_message status)), s2))
          else
            (case truncate_inputs 0 (inputArray input) of
               Inl e \<Rightarrow> (Inl e, s1)
             | Inr texts \<Rightarrow>
                 let req = \<lparr>url = EMBEDDING_URL, http_method = ''POST'',
                            headers = [(''Content-Type'', ''application/json''),
                                       (''Authorization'', ''Bearer '' @ apiKey)],
                            body = requestBody texts options,
                            timeout = TIMEOUT\<rparr>;
                     s2 = s1\<lparr>sent := sent s1 @ [req]\<rparr>
                 in case fetch h (length (sent s1)) req of
                      Rejects e \<Rightarrow> (Inl e, s2)
                    | Resolves r \<Rightarrow>
                        if \<not> ok r then
                          (Inl (Error (''JINA API error '' @ string_of_nat (status_code r) @ '': ''
                                  @ (case text_body r of Some errorText \<Rightarrow> errorText
                                     | None \<Rightarrow> ''Unknown error''))), s2)
                        else
                          (case json_body r of
                             Inl e \<Rightarrow> (Inl e, s2)
                           | Inr d \<Rightarrow>
                               (case data_field d of
                                  None \<Rightarrow> (Inl (Error ''Invalid response structure from JINA API''), s2)
                                | Some _ \<Rightarrow> (Inr d, s2)))))"

definition callJinaAPI :: "host \<Rightarrow> js_input \<Rightarrow> (string \<rightharpoonup> json) \<Rightarrow> jina_state \<Rightarrow> api_data outcome" where
  "callJinaAPI h input options s = safeAsync h ''JINA_API_ERROR'' (callJinaAPI_body h input options s)"

record dimension_mismatch =
  userEmbedding :: nat
  corpusVectors :: nat
  mismatch_note :: string

record user_embedding =
  originalText :: string
  preprocessedText :: string
  embedding :: "real list"
  dimension :: nat
  model :: string
  apiType :: string
  apiKeySource :: string
  environment_field :: environment
  usage :: "string option"
  timestamp :: string
  dimensionMismatch :: dimension_mismatch

definition createUserInputEmbedding_body :: "host \<Rightarrow> js_value \<Rightarrow> jina_state \<Rightarrow> user_embedding outcome" where
  "createUserInputEmbedding_body h text s =
     (case text of
        JOther _ \<Rightarrow> (Inl (Error ''Input text is required and must be a string''), s)
      | JString t \<Rightarrow>
          if \<not> truthy t then (Inl (Error ''Input text is required and must be a string''), s)
          else
            let cleanedText = cleanText h t in
            if \<not> truthy cleanedText then (Inl (Error ''Input text is empty after cleaning''), s)
            else
              (case callJinaAPI h (Single (JString cleanedText)) Map.empty s of
                 (Inl e, s1) \<Rightarrow> (Inl e, s1)
               | (Inr response, s1) \<Rightarrow>
                   (case data_field response of
                      None \<Rightarrow> (Inl TypeError, s1)
                    | Some [] \<Rightarrow> (Inl TypeError, s1)
                    | Some (embeddingData # _) \<Rightarrow>
                        (case embedding_field embeddingData of
                           None \<Rightarrow> (Inl (Error ''No embedding returned from JINA API''), s1)
                         | Some emb \<Rightarrow>
                             (case getApiKeyStatus h s1 of
                                (Inl e, s2) \<Rightarrow> (Inl e, s2)
                              | (Inr keyStatus, s2) \<Rightarrow>
                                  (Inr \<lparr>originalText = t,
                                        preprocessedText = cleanedText,
                                        embedding = emb,
                                        dimension = length emb,
                                        model = MODEL,
                                        apiType = ''jina'',
                                        apiKeySource = key_source keyStatus,
                                        environment_field = status_environment keyStatus,
                                        usage = usage_field response,
                                        timestamp = now h,
                                        dimensionMismatch =
                                          \<lparr>userEmbedding = length emb,
                                           corpusVectors = corpus_dimension h,
                                           mismatch_note = (if length emb \<noteq> corpus_dimension h
                                                   then ''Dimension mismatch - consider regenerating corpus''
                                                   else ''Dimensions match'')\<rparr>\<rparr>, s2))))))"

definition createUserInputEmbedding :: "host \<Rightarrow> js_value \<Rightarrow> jina_state \<Rightarrow> user_embedding outcome" where
  "createUserInputEmbedding h text s =
     safeAsync h ''EMBEDDING_CREATE_ERROR'' (createUserInputEmbedding_body h text s)"

definition loadEmbeddingModel_body :: "host \<Rightarrow> jina_state \<Rightarrow> key_status outcome" where
  "loadEmbeddingModel_body h s =
     (case getApiKeyStatus h s of
        (Inl e, s1) \<Rightarrow> (Inl e, s1)
      | (Inr keyStatus, s1) \<Rightarrow>
          if \<not> hasKey keyStatus then
            (Inl (Error (''JINA API key required. Environment: ''
                    @ environment_name (status_environment keyStatus))), s1)
          else
            (case callJinaAPI h (Single (JString ''test'')) Map.empty s1 of
               (Inl e, s2) \<Rightarrow> (Inl e, s2)
             | (Inr _, s2) \<Rightarrow> (Inr keyStatus, s2)))"

definition loadEmbeddingModel :: "host \<Rightarrow> jina_state \<Rightarrow> key_status outcome" where
  "loadEmbeddingModel h s = safeAsync h ''MODEL_LOAD_ERROR'' (loadEmbeddingModel_body h s)"

definition isEmbeddingModelReady_body :: "host \<Rightarrow> jina_state \<Rightarrow> bool outcome" where
  "isEmbeddingModelReady_body h s =
     (case getApiKeyStatus h s of
        (Inl e, s1) \<Rightarrow> (Inl e, s1)
      | (Inr keyStatus, s1) \<Rightarrow>
          if \<not> hasKey keyStatus then (Inr False, s1)
          else
            (case callJinaAPI h (Single (JString ''test'')) Map.empty s1 of
               (Inl e, s2) \<Rightarrow> (Inr False, s2)
             | (Inr _, s2) \<Rightarrow> (Inr True, s2)))"

definition isEmbeddingModelReady :: "host \<Rightarrow> jina_state \<Rightarrow> bool outcome" where
  "isEmbeddingModelReady h s = safeAsync h ''MODEL_CHECK_ERROR'' (isEmbeddingModelReady_body h s)"


section \<open>Retrieval core: data model\<close>

text \<open>
  Modelled from the spec: \<open>findSimilarContext\<close> is called by \<open>main.js\<close> but defined in no
  source file, so the scorer, the ranker and the budgeter below follow sections 3, 4.1, 4.2
  and 4.3 of the specification. Floating-point numbers are real numbers here.
\<close>

text \<open>Modelled from the spec: \<open>EmbeddingVector\<close>, a sequence of numbers whose length is
  its dimension.\<close>

type_synonym EmbeddingVector = "real list"

text \<open>Modelled from the spec: the level of a corpus item.\<close>

datatype level = Document | Section | Paragraph

text \<open>Modelled from the spec: \<open>CorpusItem\<close>, \<open>{ id, level, embedding, text, title?,
  document_id? }\<close>.\<close>

record CorpusItem =
  item_id :: nat
  level :: level
  item_embedding :: EmbeddingVector
  item_text :: string
  title :: "string option"
  document_id :: "string option"

text \<open>Modelled from the spec: \<open>VectorStore\<close>, one sequence of items per level, in corpus
  order; \<open>main.js\<close> holds it in \<open>vectorData\<close>.\<close>

record VectorStore =
  documents :: "CorpusItem list"
  sections :: "CorpusItem list"
  paragraphs :: "CorpusItem list"

text \<open>Modelled from the spec: \<open>ScoredMatch\<close>, \<open>{ item, score, level }\<close>, and
  \<open>RankedContext\<close>, a sequence of them.\<close>

record ScoredMatch =
  item :: CorpusItem
  score :: real
  match_level :: level

type_synonym RankedContext = "ScoredMatch list"

text \<open>The two numbers \<open>main.js\<close> reads from the \<open>metadata\<close> of a search result.\<close>

record search_metadata =
  totalResults :: int
  contextLength :: int

text \<open>Modelled from the spec: \<open>ContextSelection\<close>, \<open>{ items, totalResults,
  contextLength }\<close>.\<close>

record ContextSelection = search_metadata +
  items :: "ScoredMatch list"

text \<open>Modelled from the spec: the two errors the retrieval core raises (section 7).\<close>

datatype pipeline_error = DimensionMismatch | EmptyInput

subsection \<open>SimilarityScorer\<close>

text \<open>Modelled from the spec: section 4.1, the dot product of the cosine formula
  \<open>dot(query, candidate) / (\<parallel>query\<parallel> \<sqdot> \<parallel>candidate\<parallel>)\<close>.\<close>

definition dot :: "EmbeddingVector \<Rightarrow> EmbeddingVector \<Rightarrow> real" where
  "dot a b = sum_list (map2 (*) a b)"

text \<open>Modelled from the spec: the magnitude \<open>\<parallel>a\<parallel>\<close> of a vector.\<close>

definition magnitude :: "EmbeddingVector \<Rightarrow> real" where
  "magnitude a = sqrt (dot a a)"

text \<open>Modelled from the spec: the cosine similarity of two vectors of non-zero
  magnitude.\<close>

definition cosine :: "EmbeddingVector \<Rightarrow> EmbeddingVector \<Rightarrow> real" where
  "cosine a b = dot a b / (magnitude a * magnitude b)"

text \<open>
  Modelled from the spec: \<open>score(query, candidate, level, advanced)\<close>. Vectors of
  different lengths always fail with \<open>DimensionMismatch\<close>; a vector of zero magnitude
  gives the score \<open>0\<close>; the base case is the cosine; the advanced case applies a
  level-specific weighting whose formula the specification leaves open, taken here as a
  parameter that reads the query, the candidate and the level and nothing else.
\<close>

type_synonym weighting = "level \<Rightarrow> EmbeddingVector \<Rightarrow> EmbeddingVector \<Rightarrow> real"

definition similarity_score ::
  "weighting \<Rightarrow> EmbeddingVector \<Rightarrow> EmbeddingVector \<Rightarrow> level \<Rightarrow> bool \<Rightarrow> pipeline_error + real" where
  "similarity_score w query candidate lvl advanced =
     (if length query \<noteq> length candidate then Inl DimensionMismatch
      else if magnitude query = 0 \<or> magnitude candidate = 0 then Inr 0
      else if advanced then Inr (w lvl query candidate)
      else Inr (cosine query candidate))"

subsection \<open>ContextRanker\<close>

text \<open>Modelled from the spec: \<open>priorityStrategy\<close> and the options of \<open>rank\<close>.\<close>

datatype priority_strategy = balanced | documents_first | paragraphs_first

record rank_options =
  advanced :: bool
  strategy :: priority_strategy

text \<open>Modelled from the spec: the policy an implementation chooses, the weighting of the
  advanced mode and the magnitude of the bonus a priority strategy adds to its level.\<close>

record scoring_policy =
  level_weighting :: weighting
  bonus :: real

text \<open>Modelled from the spec: every item of the three collections is scored, documents
  first, then sections, then paragraphs, each in corpus order; the first failure ends the
  scan.\<close>

fun score_items ::
  "weighting \<Rightarrow> EmbeddingVector \<Rightarrow> bool \<Rightarrow> level \<Rightarrow> CorpusItem list \<Rightarrow> pipeline_error + ScoredMatch list" where
  "score_items w query adv lvl [] = Inr []"
| "score_items w query adv lvl (c # cs) =
     (case similarity_score w query (item_embedding c) lvl adv of
        Inl e \<Rightarrow> Inl e
      | Inr sc \<Rightarrow>
          (case score_items w query adv lvl cs of
             Inl e \<Rightarrow> Inl e
           | Inr ms \<Rightarrow> Inr (\<lparr>item = c, score = sc, match_level = lvl\<rparr> # ms)))"

text \<open>Modelled from the spec: the scored items of the whole store.\<close>

definition score_store ::
  "weighting \<Rightarrow> EmbeddingVector \<Rightarrow> bool \<Rightarrow> VectorStore \<Rightarrow> pipeline_error + ScoredMatch list" where
  "score_store w query adv store =
     (case score_items w query adv Document (documents store) of
        Inl e \<Rightarrow> Inl e
      | Inr ds \<Rightarrow>
          (case score_items w query adv Section (sections store) of
             Inl e \<Rightarrow> Inl e
           | Inr ss \<Rightarrow>
               (case score_items w query adv Paragraph (paragraphs store) of
                  Inl e \<Rightarrow> Inl e
                | Inr ps \<Rightarrow> Inr (ds @ ss @ ps))))"

text \<open>Modelled from the spec: \<open>balanced\<close> leaves the score; \<open>documents_first\<close> and
  \<open>paragraphs_first\<close> add the bonus to the items of the named level.\<close>

fun favoured :: "priority_strategy \<Rightarrow> level \<Rightarrow> bool" where
  "favoured documents_first Document = True"
| "favoured paragraphs_first Paragraph = True"
| "favoured _ _ = False"

text \<open>Modelled from the spec: the effective score the ranker sorts by, the raw score
  with the bonus added for an item of the favoured level.\<close>

definition effective_score :: "real \<Rightarrow> priority_strategy \<Rightarrow> ScoredMatch \<Rightarrow> real" where
  "effective_score b st m = (if favoured st (match_level m) then score m + b else score m)"

text \<open>Modelled from the spec: \<open>rank(query, store, options)\<close>, the whole scored list in
  descending order of effective score by a stable sort (insertion sort on the negated
  score), with no cutoff.\<close>

definition rank ::
  "scoring_policy \<Rightarrow> EmbeddingVector \<Rightarrow> VectorStore \<Rightarrow> rank_options \<Rightarrow> pipeline_error + RankedContext" where
  "rank pol query store opts =
     (case score_store (level_weighting pol) query (advanced opts) store of
        Inl e \<Rightarrow> Inl e
      | Inr ms \<Rightarrow> Inr (sort_key (\<lambda>m. - effective_score (bonus pol) (strategy opts) m) ms))"

text \<open>Modelled from the spec: the contract of the ranker as a relation, for any
  implementation of it: the result holds the scored items, each once, in descending order
  of effective score, and items of equal effective score keep the order they were scored
  in.\<close>

definition ranked_context ::
  "scoring_policy \<Rightarrow> EmbeddingVector \<Rightarrow> VectorStore \<Rightarrow> rank_options \<Rightarrow> RankedContext \<Rightarrow> bool" where
  "ranked_context pol query store opts r =
     (case score_store (level_weighting pol) query (advanced opts) store of
        Inl e \<Rightarrow> False
      | Inr ms \<Rightarrow>
          mset r = mset ms
          \<and> sorted_wrt (\<lambda>a b. effective_score (bonus pol) (strategy opts) a
                               \<ge> effective_score (bonus pol) (strategy opts) b) r
          \<and> (\<forall>k. filter (\<lambda>m. effective_score (bonus pol) (strategy opts) m = k) r
                 = filter (\<lambda>m. effective_score (bonus pol) (strategy opts) m = k) ms))"

subsection \<open>ContextBudgeter\<close>

text \<open>Modelled from the spec: the length in characters of a candidate's text.\<close>

definition text_length :: "ScoredMatch \<Rightarrow> int" where
  "text_length m = int (length (item_text (item m)))"

text \<open>Modelled from the spec: section 4.3. The walk over the ranked list with the running
  total: an item is kept when the total with its whole text stays within the budget, and
  the walk goes on after an item that does not fit.\<close>

fun budget_walk :: "int \<Rightarrow> int \<Rightarrow> ScoredMatch list \<Rightarrow> ScoredMatch list" where
  "budget_walk maxContextLength running [] = []"
| "budget_walk maxContextLength running (m # ms) =
     (if running + text_length m \<le> maxContextLength
      then m # budget_walk maxContextLength (running + text_length m) ms
      else budget_walk maxContextLength running ms)"

text \<open>Modelled from the spec: \<open>budget(ranked, maxContextLength)\<close>, the items kept, in
  ranked order, with their number and the sum of their lengths.\<close>

definition budget :: "RankedContext \<Rightarrow> int \<Rightarrow> ContextSelection" where
  "budget ranked maxContextLength =
     (let included = budget_walk maxContextLength 0 ranked
      in \<lparr>totalResults = int (length included),
          contextLength = sum_list (map text_length included),
          items = included\<rparr>)"


section \<open>The page: \<open>main.js\<close>\<close>

text \<open>\<open>String.prototype.trim\<close>: white space and line terminators are removed from both
  ends (those among the characters of \<^typ>\<open>char\<close>).\<close>

definition is_space :: "char \<Rightarrow> bool" where
  "is_space c = (c \<in> set [CHR 0x09, CHR 0x0A, CHR 0x0B, CHR 0x0C, CHR 0x0D, CHR '' '', CHR 0xA0])"

definition trim :: "string \<Rightarrow> string" where
  "trim s = rev (dropWhile is_space (rev (dropWhile is_space s)))"

text \<open>What \<open>document.getElementById\<close> gave at load: nothing, or the element with the
  part of it the script reads or writes.\<close>

datatype 'a element = Missing | Element 'a

record status_indicator =
  textContent :: string
  className :: string
  hidden :: bool

text \<open>The \<open>innerHTML\<close> of the result area and of the context area: what the page came
  with, or one of the templates of \<open>updateTranslationOutput\<close> with the values it
  interpolates.\<close>

datatype output_html = InitialOutput | TranslationResult string

datatype context_html = InitialContext | ContextItems "ScoredMatch list" | NoContextMessage

record page =
  sourceTextArea :: "string element"
  statusIndicator :: "status_indicator element"
  translationOutput :: "output_html element"
  contextInfo :: "context_html element"
  advancedScoring :: "bool element"
  priorityStrategy :: "string element"

record search_options =
  useAdvancedScoring :: bool
  priority :: string
  maxContextLength :: int

record context_results =
  results :: "ScoredMatch list"
  metadata :: search_metadata

record language_direction =
  source_lang :: string
  target_lang :: string

record document_database =
  english :: "string \<rightharpoonup> string"
  spanish :: "string \<rightharpoonup> string"

text \<open>\<open>contextUsed\<close> is \<open>None\<close> when the result carries none (the parameter's default
  \<open>[]\<close> then applies).\<close>

record translation_result =
  translatedText :: string
  contextUsed :: "ScoredMatch list option"

text \<open>
  The functions \<open>main.js\<close> calls and no source file defines (it does not import them
  either), and the browser's \<open>prompt\<close>: what each answers in one run of the click
  handler. A call that throws, also because the name is not defined when it is called,
  answers \<open>Inl\<close>.
\<close>

record collaborators =
  findSimilarContext :: "EmbeddingVector \<Rightarrow> VectorStore \<Rightarrow> search_options \<Rightarrow> js_error + context_results"
  isDeepSeekApiReady :: "js_error + bool"
  prompt :: "string \<Rightarrow> string option"
  setDeepSeekApiKey :: "string \<Rightarrow> js_error + unit"
  storeDeepSeekApiKeyLocally :: "string \<Rightarrow> js_error + unit"
  translateWithContext ::
    "string \<Rightarrow> context_results \<Rightarrow> language_direction \<Rightarrow> document_database \<Rightarrow> js_error + translation_result"

text \<open>A call made to one of them, with its arguments.\<close>

datatype call =
    FindSimilarContext EmbeddingVector search_options
  | IsDeepSeekApiReady
  | Prompt string
  | SetDeepSeekApiKey string
  | StoreDeepSeekApiKeyLocally string
  | TranslateWithContext string context_results language_direction

text \<open>
  The state of the page's script: the document, the embeddings module, the module-level
  variables \<open>vectorData\<close>, \<open>documentDatabase\<close> and \<open>currentSourceLang\<close>, and two
  records of what happened, oldest first: the calls made to the collaborators and the
  status messages shown (message and type).
\<close>

record app =
  page :: page
  jina :: jina_state
  vectorData :: VectorStore
  documentDatabase :: document_database
  currentSourceLang :: string
  calls :: "call list"
  shown :: "(string \<times> string) list"

text \<open>\<open>showStatus(message, type)\<close>; the timer that hides a success message after three
  seconds is left out.\<close>

definition showStatus :: "string \<Rightarrow> string \<Rightarrow> app \<Rightarrow> app" where
  "showStatus message type a =
     (case statusIndicator (page a) of
        Missing \<Rightarrow> a
      | Element _ \<Rightarrow>
          a\<lparr>page := (page a)\<lparr>statusIndicator :=
                 Element \<lparr>textContent = message, className = ''status-indicator status-'' @ type,
                          hidden = False\<rparr>\<rparr>,
            shown := shown a @ [(message, type)]\<rparr>)"

definition getCurrentLanguageDirection :: "app \<Rightarrow> language_direction" where
  "getCurrentLanguageDirection a =
     \<lparr>source_lang = currentSourceLang a,
      target_lang = (if currentSourceLang a = ''en'' then ''es'' else ''en'')\<rparr>"

definition updateTranslationOutput :: "string \<Rightarrow> ScoredMatch list option \<Rightarrow> page \<Rightarrow> page" where
  "updateTranslationOutput text used p =
     (let p1 = (case translationOutput p of
                  Missing \<Rightarrow> p
                | Element _ \<Rightarrow> p\<lparr>translationOutput := Element (TranslationResult text)\<rparr>);
          ctx = (case used of None \<Rightarrow> [] | Some cs \<Rightarrow> cs)
      in case contextInfo p1 of
           Missing \<Rightarrow> p1
         | Element _ \<Rightarrow>
             if length ctx > 0 then p1\<lparr>contextInfo := Element (ContextItems ctx)\<rparr>
             else p1\<lparr>contextInfo := Element NoContextMessage\<rparr>)"

definition error_message :: "host \<Rightarrow> js_error \<Rightarrow> string" where
  "error_message h e = (case e of Error m \<Rightarrow> m | TypeError \<Rightarrow> type_error_text h | HostError m \<Rightarrow> m)"

text \<open>The \<open>catch\<close> block of \<open>handleTranslation\<close>.\<close>

definition translation_failed :: "host \<Rightarrow> js_error \<Rightarrow> app \<Rightarrow> app" where
  "translation_failed h error a =
     (if str_includes (error_message h error) ''DeepSeek API'' then
        showStatus ''Translation service error - please check your API key'' ''error'' a
      else if str_includes (error_message h error) ''embedding server'' then
        showStatus ''Embedding server issue - check if server is running'' ''error'' a
      else if str_includes (error_message h error) ''No relevant context'' then
        showStatus ''No relevant context found in corpus'' ''error'' a
      else showStatus (''Translation failed: '' @ error_message h error) ''error'' a)"

text \<open>Decimal text of an integer, as a template literal prints it.\<close>

definition string_of_int :: "int \<Rightarrow> string" where
  "string_of_int i = (if i < 0 then CHR ''-'' # string_of_nat (nat (- i)) else string_of_nat (nat i))"

text \<open>Steps 1 and 2 of \<open>handleTranslation\<close>: the embedding API is checked, loaded when
  it is not ready, and the text is embedded.\<close>

definition embed_source :: "host \<Rightarrow> string \<Rightarrow> app \<Rightarrow> (js_error + user_embedding) \<times> app" where
  "embed_source h sourceText a =
     (case isEmbeddingModelReady h (jina a) of
        (Inl e, j1) \<Rightarrow> (Inl e, a\<lparr>jina := j1\<rparr>)
      | (Inr isReady, j1) \<Rightarrow>
          (let loaded =
                 (if \<not> isReady then
                    (case loadEmbeddingModel h j1 of
                       (Inl e, j2) \<Rightarrow>
                         (Inl e, showStatus ''Checking embedding API...'' ''loading'' (a\<lparr>jina := j2\<rparr>))
                     | (Inr _, j2) \<Rightarrow>
                         (Inr (), showStatus ''Embedding API ready'' ''success''
                                    (showStatus ''Checking embedding API...'' ''loading'' (a\<lparr>jina := j2\<rparr>))))
                  else (Inr (), a\<lparr>jina := j1\<rparr>))
           in case loaded of
                (Inl e, a1) \<Rightarrow> (Inl e, a1)
              | (Inr _, a1) \<Rightarrow>
                  (let a2 = showStatus ''Creating text embedding...'' ''loading'' a1
                   in case createUserInputEmbedding h (JString sourceText) (jina a2) of
                        (Inl e, j3) \<Rightarrow> (Inl e, a2\<lparr>jina := j3\<rparr>)
                      | (Inr userEmb, j3) \<Rightarrow>
                          (Inr userEmb,
                           showStatus ''Text vectorized successfully'' ''success'' (a2\<lparr>jina := j3\<rparr>)))))"

text \<open>Step 3: the options of the similarity search, read from the page; a missing
  checkbox counts as checked, a missing or empty strategy as \<open>balanced\<close>.\<close>

definition page_options :: "app \<Rightarrow> search_options" where
  "page_options a =
     \<lparr>useAdvancedScoring = (case advancedScoring (page a) of Missing \<Rightarrow> True | Element checked \<Rightarrow> checked),
      priority = (case priorityStrategy (page a) of
                    Missing \<Rightarrow> ''balanced''
                  | Element v \<Rightarrow> if truthy v then v else ''balanced''),
      maxContextLength = 8000\<rparr>"

text \<open>Steps 4 and 5: the corpus is searched and the number of results is reported.\<close>

definition search_context ::
  "collaborators \<Rightarrow> user_embedding \<Rightarrow> app \<Rightarrow> (js_error + context_results) \<times> app" where
  "search_context c userEmb a =
     (let opts = page_options a;
          a1 = (showStatus ''Searching corpus for relevant context...'' ''loading'' a)
                 \<lparr>calls := calls a @ [FindSimilarContext (embedding userEmb) opts]\<rparr>
      in case findSimilarContext c (embedding userEmb) (vectorData a) opts of
           Inl e \<Rightarrow> (Inl e, a1)
         | Inr contextResults \<Rightarrow>
             (let resultCount = totalResults (metadata contextResults);
                  chars = contextLength (metadata contextResults)
              in if resultCount > 0 then
                   (Inr contextResults,
                    showStatus (''Found '' @ string_of_int resultCount @ '' relevant passages (''
                                  @ string_of_int chars @ '' chars)'') ''success'' a1)
                 else
                   (Inr contextResults,
                    showStatus ''No relevant context found - translating without corpus assistance''
                      ''error'' a1)))"

text \<open>Step 6: the translation API is checked; without a key the user is asked for one.
  The result says whether the run goes on (\<open>False\<close>: it returned, cancelled).\<close>

definition check_translation_api :: "collaborators \<Rightarrow> app \<Rightarrow> (js_error + bool) \<times> app" where
  "check_translation_api c a =
     (let a1 = (showStatus ''Checking translation API...'' ''loading'' a)\<lparr>calls := calls a @ [IsDeepSeekApiReady]\<rparr>
      in case isDeepSeekApiReady c of
           Inl e \<Rightarrow> (Inl e, a1)
         | Inr translationReady \<Rightarrow>
             if \<not> translationReady then
               (let a2 = (showStatus ''DeepSeek API key required. Please set your API key.'' ''error'' a1)
                           \<lparr>calls := calls a1 @ [Prompt ''Please enter your DeepSeek API key:'']\<rparr>
                in case prompt c ''Please enter your DeepSeek API key:'' of
                     None \<Rightarrow> (Inr False, showStatus ''Translation cancelled - API key required'' ''error'' a2)
                   | Some apiKey \<Rightarrow>
                       if truthy apiKey then
                         (let a3 = a2\<lparr>calls := calls a2 @ [SetDeepSeekApiKey apiKey]\<rparr>
                          in case setDeepSeekApiKey c apiKey of
                               Inl e \<Rightarrow> (Inl e, a3)
                             | Inr _ \<Rightarrow>
                                 (let a4 = a3\<lparr>calls := calls a3 @ [StoreDeepSeekApiKeyLocally apiKey]\<rparr>
                                  in case storeDeepSeekApiKeyLocally c apiKey of
                                       Inl e \<Rightarrow> (Inl e, a4)
                                     | Inr _ \<Rightarrow> (Inr True, showStatus ''API key set successfully'' ''success'' a4)))
                       else (Inr False, showStatus ''Translation cancelled - API key required'' ''error'' a2))
             else (Inr True, a1))"

text \<open>
  \<open>handleTranslation\<close> up to its last \<open>await\<close>: everything the handler does until it
  has called \<open>translateWithContext\<close> and waits for the answer. The result holds the
  arguments of that call when it was made, and \<open>None\<close> when the run ended before (no
  text, an exception caught, the prompt cancelled).
\<close>

definition handleTranslation_request ::
  "host \<Rightarrow> collaborators \<Rightarrow> app \<Rightarrow> (string \<times> context_results \<times> language_direction) option \<times> app" where
  "handleTranslation_request h c a =
     (let sourceText = (case sourceTextArea (page a) of Missing \<Rightarrow> None | Element v \<Rightarrow> Some (trim v))
      in if \<not> truthy_opt sourceText then (None, showStatus ''Please enter some text to translate'' ''error'' a)
         else
           (case sourceText of
              None \<Rightarrow> (None, showStatus ''Please enter some text to translate'' ''error'' a)
            | Some sourceText \<Rightarrow>
                (case embed_source h sourceText a of
                   (Inl e, a1) \<Rightarrow> (None, translation_failed h e a1)
                 | (Inr userEmb, a1) \<Rightarrow>
                     (case search_context c userEmb a1 of
                        (Inl e, a2) \<Rightarrow> (None, translation_failed h e a2)
                      | (Inr contextResults, a2) \<Rightarrow>
                          (case check_translation_api c a2 of
                             (Inl e, a3) \<Rightarrow> (None, translation_failed h e a3)
                           | (Inr False, a3) \<Rightarrow> (None, a3)
                           | (Inr True, a3) \<Rightarrow>
                               (let a4 = showStatus ''Translating with context...'' ''loading'' a3;
                                    languageDirection = getCurrentLanguageDirection a4
                                in (Some (sourceText, contextResults, languageDirection),
                                    a4\<lparr>calls := calls a4
                                          @ [TranslateWithContext sourceText contextResults languageDirection]\<rparr>)))))))"

text \<open>\<open>handleTranslation\<close> from the moment the answer of \<open>translateWithContext\<close>
  arrives: step 8, or the \<open>catch\<close> block when the call failed.\<close>

definition handleTranslation_response :: "host \<Rightarrow> js_error + translation_result \<Rightarrow> app \<Rightarrow> app" where
  "handleTranslation_response h answer a =
     (case answer of
        Inl e \<Rightarrow> translation_failed h e a
      | Inr translationResult \<Rightarrow>
          (let a1 = showStatus ''Translation completed successfully!'' ''success'' a
           in a1\<lparr>page := updateTranslationOutput (translatedText translationResult)
                             (contextUsed translationResult) (page a1)\<rparr>))"

text \<open>One run of \<open>handleTranslation\<close> with nothing else happening in between.\<close>

definition handleTranslation :: "host \<Rightarrow> collaborators \<Rightarrow> app \<Rightarrow> app" where
  "handleTranslation h c a =
     (case handleTranslation_request h c a of
        (None, a1) \<Rightarrow> a1
      | (Some (sourceText, contextResults, languageDirection), a1) \<Rightarrow>
          handleTranslation_response h
            (translateWithContext c sourceText contextResults languageDirection (documentDatabase a1)) a1)"

subsection \<open>Clicks and answers in time\<close>

text \<open>
  \<open>setupTranslateButton\<close> registers one listener that calls \<open>handleTranslation\<close> on
  every click; nothing disables the button and nothing numbers the runs. A run that has
  called \<open>translateWithContext\<close> is pending until its answer arrives; the page is live
  meanwhile. The earlier waits of a run (the embedding API, the search) are taken to end
  before the next event. An event is the user typing into the source area,
  a click on the translate button (with what the collaborators answer to that run), or
  the arrival of the answer for the pending run of a given number. Runs are numbered in
  the order of their translation requests.
\<close>

datatype event =
    TypeText string
  | Click collaborators
  | Answer nat "js_error + translation_result"

record session =
  app_state :: app
  pending :: "nat list"
  issued :: nat

definition step :: "host \<Rightarrow> session \<Rightarrow> event \<Rightarrow> session" where
  "step h ss ev =
     (case ev of
        TypeText v \<Rightarrow>
          (case sourceTextArea (page (app_state ss)) of
             Missing \<Rightarrow> ss
           | Element _ \<Rightarrow>
               ss\<lparr>app_state := (app_state ss)\<lparr>page := (page (app_state ss))\<lparr>sourceTextArea := Element v\<rparr>\<rparr>\<rparr>)
      | Click c \<Rightarrow>
          (case handleTranslation_request h c (app_state ss) of
             (None, a1) \<Rightarrow> ss\<lparr>app_state := a1\<rparr>
           | (Some _, a1) \<Rightarrow>
               ss\<lparr>app_state := a1, pending := pending ss @ [issued ss], issued := Suc (issued ss)\<rparr>)
      | Answer n answer \<Rightarrow>
          if n \<in> set (pending ss) then
            ss\<lparr>app_state := handleTranslation_response h answer (app_state ss),
               pending := removeAll n (pending ss)\<rparr>
          else ss)"

definition run_events :: "host \<Rightarrow> session \<Rightarrow> event list \<Rightarrow> session" where
  "run_events h ss evs = foldl (step h) ss evs"

text \<open>Modelled from the spec: how a selection of the budgeter is handed to \<open>main.js\<close>,
  which reads \<open>metadata.totalResults\<close> and \<open>metadata.contextLength\<close> of the result.\<close>

definition context_results_of :: "ContextSelection \<Rightarrow> context_results" where
  "context_results_of sel =
     \<lparr>results = items sel,
      metadata = \<lparr>totalResults = totalResults sel, contextLength = contextLength sel\<rparr>\<rparr>"




text \<open>What a run of the handler leaves as it is: the page apart from the status
  indicator (which stays present or missing), the corpus, the document database and the
  language.\<close>

definition keeps :: "app \<Rightarrow> app \<Rightarrow> bool" where
  "keeps a a1 =
     (sourceTextArea (page a1) = sourceTextArea (page a)
      \<and> translationOutput (page a1) = translationOutput (page a)
      \<and> contextInfo (page a1) = contextInfo (page a)
      \<and> advancedScoring (page a1) = advancedScoring (page a)
      \<and> priorityStrategy (page a1) = priorityStrategy (page a)
      \<and> (statusIndicator (page a1) = Missing) = (statusIndicator (page a) = Missing)
      \<and> vectorData a1 = vectorData a
      \<and> documentDatabase a1 = documentDatabase a
      \<and> currentSourceLang a1 = currentSourceLang a)"

text \<open>The source texts of the translation requests made, oldest first.\<close>

fun requested_texts :: "call list \<Rightarrow> string list" where
  "requested_texts [] = []"
| "requested_texts (TranslateWithContext t cr d # cs) = t # requested_texts cs"
| "requested_texts (_ # cs) = requested_texts cs"

text \<open>What is seen of a session: the source area, the result area, the key in memory,
  the pending runs, the number of requests made and their texts.\<close>

definition observe ::
  "session \<Rightarrow> string element \<times> output_html element \<times> string option \<times> nat list \<times> nat \<times> string list" where
  "observe ss =
     (sourceTextArea (page (app_state ss)), translationOutput (page (app_state ss)),
      API_KEY (jina (app_state ss)), pending ss, issued ss, requested_texts (calls (app_state ss)))"

section \<open>Concrete inputs\<close>

text \<open>A provider that answers every request with one embedding of two numbers, on a
  development host whose corpus is configured for 1024 dimensions.\<close>

definition demo_response :: response where
  "demo_response = \<lparr>ok = True, status_code = 200, text_body = None,
      json_body = Inr \<lparr>data_field = Some [\<lparr>embedding_field = Some [1, 0]\<rparr>], usage_field = None\<rparr>\<rparr>"

definition demo_host :: host where
  "demo_host = \<lparr>hostname = ''localhost'', ENV_VARS_JINA_API_KEY = None, api_config_module = None,
      fetch = (\<lambda>n req. Resolves demo_response), corpus_dimension = 1024,
      now = ''2025-01-01T00:00:00.000Z'', cleanText = (\<lambda>t. t), rethrow = (\<lambda>tag e. e),
      type_error_text = ''undefined''\<rparr>"

definition pages_host :: host where
  "pages_host = demo_host\<lparr>hostname := ''alamar-b.github.io''\<rparr>"

text \<open>The module as loaded, with no key anywhere, and with a key set by hand.\<close>

definition fresh_jina :: jina_state where
  "fresh_jina = \<lparr>API_KEY = None, localApiConfig = None, configLoadAttempted = False,
      localStorage = Some Map.empty, sent = []\<rparr>"

definition demo_jina :: jina_state where
  "demo_jina = fresh_jina\<lparr>API_KEY := Some ''jina_demo''\<rparr>"

text \<open>The two ranked items of the budgeting example of the specification.\<close>

definition item1 :: ScoredMatch where
  "item1 = \<lparr>item = \<lparr>item_id = 1, level = Document, item_embedding = [], item_text = replicate 50 CHR ''x'',
                    title = None, document_id = None\<rparr>, score = 0.9, match_level = Document\<rparr>"

definition item2 :: ScoredMatch where
  "item2 = \<lparr>item = \<lparr>item_id = 2, level = Paragraph, item_embedding = [], item_text = replicate 10 CHR ''y'',
                    title = None, document_id = None\<rparr>, score = 0.5, match_level = Paragraph\<rparr>"

text \<open>A corpus of two documents, the second closer to the query \<open>[1, 0]\<close> than the
  first, and a policy.\<close>

definition doc_far :: CorpusItem where
  "doc_far = \<lparr>item_id = 1, level = Document, item_embedding = [0, 1], item_text = ''far'',
              title = None, document_id = None\<rparr>"

definition doc_near :: CorpusItem where
  "doc_near = \<lparr>item_id = 2, level = Document, item_embedding = [1, 0], item_text = ''near'',
               title = None, document_id = None\<rparr>"

definition demo_store :: VectorStore where
  "demo_store = \<lparr>documents = [doc_far, doc_near], sections = [], paragraphs = []\<rparr>"

definition demo_policy :: scoring_policy where
  "demo_policy = \<lparr>level_weighting = (\<lambda>lvl q c. dot q c), bonus = 1 / 10\<rparr>"

definition demo_options :: rank_options where
  "demo_options = \<lparr>advanced = False, strategy = documents_first\<rparr>"

definition demo_ranked :: RankedContext where
  "demo_ranked = [\<lparr>item = doc_near, score = 1, match_level = Document\<rparr>,
                  \<lparr>item = doc_far, score = 0, match_level = Document\<rparr>]"


text \<open>A page with every element, an empty corpus, and collaborators that find no
  context, have a translation key and translate every text into itself.\<close>

definition no_context :: context_results where
  "no_context = \<lparr>results = [], metadata = \<lparr>totalResults = 0, contextLength = 0\<rparr>\<rparr>"

definition demo_collaborators :: collaborators where
  "demo_collaborators =
     \<lparr>findSimilarContext = (\<lambda>q store opts. Inr no_context),
      isDeepSeekApiReady = Inr True,
      prompt = (\<lambda>q. None),
      setDeepSeekApiKey = (\<lambda>k. Inr ()),
      storeDeepSeekApiKeyLocally = (\<lambda>k. Inr ()),
      translateWithContext = (\<lambda>t cr d db. Inr \<lparr>translatedText = t, contextUsed = None\<rparr>)\<rparr>"

definition demo_page :: page where
  "demo_page = \<lparr>sourceTextArea = Element [],
      statusIndicator = Element \<lparr>textContent = [], className = ''status-indicator hidden'', hidden = True\<rparr>,
      translationOutput = Element InitialOutput, contextInfo = Element InitialContext,
      advancedScoring = Element True, priorityStrategy = Element ''balanced''\<rparr>"

definition demo_app :: app where
  "demo_app = \<lparr>page = demo_page, jina = demo_jina,
      vectorData = \<lparr>documents = [], sections = [], paragraphs = []\<rparr>,
      documentDatabase = \<lparr>english = Map.empty, spanish = Map.empty\<rparr>,
      currentSourceLang = ''en'', calls = [], shown = []\<rparr>"

definition demo_session :: session where
  "demo_session = \<lparr>app_state = demo_app, pending = [], issued = 0\<rparr>"

text \<open>The user asks for \<open>hello\<close>, then for \<open>goodbye\<close> while the first request is
  pending; the answer to the second request arrives first, the answer to the first one
  last.\<close>

definition two_clicks :: "event list" where
  "two_clicks = [TypeText ''hello'', Click demo_collaborators, TypeText ''goodbye'', Click demo_collaborators]"

definition newer_first :: "event list" where
  "newer_first = two_clicks @ [Answer 1 (Inr \<lparr>translatedText = ''adios'', contextUsed = None\<rparr>)]"

definition stale_last :: "event list" where
  "stale_last = newer_first @ [Answer 0 (Inr \<lparr>translatedText = ''hola'', contextUsed = None\<rparr>)]"

section \<open>Facts about the embeddings module\<close>

lemma snd_safeAsync: "snd (safeAsync h tag r) = snd r"
  by (cases r; cases "fst r") (auto simp: safeAsync_def)



lemma getApiKey_manual:
  "truthy_opt (API_KEY s) \<Longrightarrow> getApiKey h s = (Inr (API_KEY s), s)"
  by (simp add: getApiKey_def Let_def)

lemma tryLoadLocalConfig_keeps:
  "tryLoadLocalConfig h s = (c, s1) \<Longrightarrow>
     sent s1 = sent s \<and> API_KEY s1 = API_KEY s \<and> localStorage s1 = localStorage s"
  by (auto simp: tryLoadLocalConfig_def Let_def split: if_splits option.splits)

lemma getApiKey_keeps:
  "getApiKey h s = (r, s1) \<Longrightarrow>
     sent s1 = sent s \<and> API_KEY s1 = API_KEY s \<and> localStorage s1 = localStorage s"
  by (auto simp: getApiKey_def Let_def split: if_splits option.splits sum.splits prod.splits
           dest: tryLoadLocalConfig_keeps)


lemma truncate_inputs_strings:
  "truncate_inputs i (map JString ts) = Inr (map (take MAX_INPUT_LENGTH) ts)"
  by (induction ts arbitrary: i) auto

lemma requestBody_input:
  "''input'' \<notin> dom options \<Longrightarrow> requestBody texts options ''input'' = Some (JsonArray (map JsonString texts))"
  by (auto simp: requestBody_def DEFAULT_OPTIONS_def map_add_def split: option.splits)

lemmas jina_defs = createUserInputEmbedding_def createUserInputEmbedding_body_def callJinaAPI_def
  callJinaAPI_body_def safeAsync_def getApiKey_def getApiKeyStatus_def detectEnvironment_def
  truthy_def requestBody_def Let_def isEmbeddingModelReady_def isEmbeddingModelReady_body_def
  loadEmbeddingModel_def loadEmbeddingModel_body_def getItem_def

lemmas demo_defs = demo_host_def demo_jina_def fresh_jina_def demo_response_def pages_host_def

subsection \<open>Storing a key\<close>

text \<open>
  C10. After \<open>storeApiKeyLocally(k)\<close> has succeeded for a non-empty string \<open>k\<close>, the key
  is in memory and \<open>getApiKey()\<close> returns \<open>k\<close> on every host, so in every environment,
  and leaves the state as it was, so every later call returns \<open>k\<close> again. For an empty
  string or a value that is not a string, \<open>storeApiKeyLocally\<close> throws and the key in
  memory is what it was before.
\<close>

theorem storeApiKeyLocally_then_getApiKey:
  "(k \<noteq> [] \<longrightarrow> (\<forall>s'. storeApiKeyLocally (JString k) s = (Inr (), s') \<longrightarrow>
       API_KEY s' = Some k \<and> (\<forall>h. getApiKey h s' = (Inr (Some k), s'))))
   \<and> ((v = JString [] \<or> v = JOther t) \<longrightarrow>
       (\<exists>e s'. storeApiKeyLocally v s = (Inl e, s') \<and> API_KEY s' = API_KEY s))"
proof (intro conjI impI allI)
  fix s' h
  assume k: "k \<noteq> []" and stored: "storeApiKeyLocally (JString k) s = (Inr (), s')"
  from stored k show key: "API_KEY s' = Some k"
    by (auto simp: storeApiKeyLocally_def setJinaApiKey_def truthy_def split: option.splits)
  then have "truthy_opt (API_KEY s')" using k by (simp add: truthy_def)
  from getApiKey_manual [OF this] key show "getApiKey h s' = (Inr (Some k), s')" by simp
next
  assume "v = JString [] \<or> v = JOther t"
  then show "\<exists>e s'. storeApiKeyLocally v s = (Inl e, s') \<and> API_KEY s' = API_KEY s"
    by (auto simp: storeApiKeyLocally_def setJinaApiKey_def truthy_def split: option.splits)
qed

theorem storeApiKeyLocally_then_getApiKey_witness:
  "''jina_abc'' \<noteq> []
   \<and> storeApiKeyLocally (JString ''jina_abc'') fresh_jina =
       (Inr (), fresh_jina\<lparr>localStorage := Some [''jina_api_key'' \<mapsto> ''jina_abc''],
                          API_KEY := Some ''jina_abc''\<rparr>)
   \<and> detectEnvironment pages_host = github_pages
   \<and> fst (getApiKey pages_host
            (fresh_jina\<lparr>localStorage := Some [''jina_api_key'' \<mapsto> ''jina_abc''],
                        API_KEY := Some ''jina_abc''\<rparr>)) = Inr (Some ''jina_abc'')
   \<and> (\<exists>e s'. storeApiKeyLocally (JString []) fresh_jina = (Inl e, s')
               \<and> API_KEY s' = API_KEY fresh_jina)"
proof -
  have stored: "storeApiKeyLocally (JString ''jina_abc'') fresh_jina =
       (Inr (), fresh_jina\<lparr>localStorage := Some [''jina_api_key'' \<mapsto> ''jina_abc''],
                          API_KEY := Some ''jina_abc''\<rparr>)"
    by (simp add: storeApiKeyLocally_def setJinaApiKey_def truthy_def fresh_jina_def)
  have env: "detectEnvironment pages_host = github_pages"
    by (simp add: detectEnvironment_def demo_defs)
  from storeApiKeyLocally_then_getApiKey [of "''jina_abc''" fresh_jina "JString []" "[]"] stored env
  show ?thesis by simp
qed

subsection \<open>Truncating the input\<close>

text \<open>
  C9. When a key is found and every input is a string, \<open>callJinaAPI\<close> sends one request
  whose \<open>input\<close> holds, for each text, its first 8192 characters: a text longer than
  8192 characters is cut to exactly 8192, a text of at most 8192 characters is sent as it
  is, and no error comes from the input (the request is sent). The caller's options must
  not themselves set \<open>input\<close>, which the spread would let them do.
\<close>

theorem callJinaAPI_truncates_input:
  assumes key: "getApiKey h s = (Inr (Some apiKey), s1)" "truthy apiKey"
    and strings: "inputArray input = map JString texts"
    and opts: "''input'' \<notin> dom options"
  shows "\<exists>req. sent (snd (callJinaAPI h input options s)) = sent s @ [req]
           \<and> body req ''input'' = Some (JsonArray (map JsonString (map (take 8192) texts)))
           \<and> (\<forall>t \<in> set texts. (8192 < length t \<longrightarrow> length (take 8192 t) = 8192)
                               \<and> (length t \<le> 8192 \<longrightarrow> take 8192 t = t))"
proof -
  from getApiKey_keeps [OF key(1)] have s1: "sent s1 = sent s" by simp
  let ?req = "\<lparr>url = EMBEDDING_URL, http_method = ''POST'',
                headers = [(''Content-Type'', ''application/json''), (''Authorization'', ''Bearer '' @ apiKey)],
                body = requestBody (map (take MAX_INPUT_LENGTH) texts) options,
                timeout = TIMEOUT\<rparr>"
  have "sent (snd (callJinaAPI_body h input options s)) = sent s @ [?req]"
    using key strings s1
    by (simp add: callJinaAPI_body_def truncate_inputs_strings Let_def
             split: fetch_outcome.splits sum.splits option.splits)
  then have "sent (snd (callJinaAPI h input options s)) = sent s @ [?req]"
    by (simp add: callJinaAPI_def snd_safeAsync)
  moreover have "body ?req ''input'' = Some (JsonArray (map JsonString (map (take 8192) texts)))"
    using requestBody_input [OF opts] by (simp add: MAX_INPUT_LENGTH_def)
  ultimately show ?thesis by (intro exI [of _ ?req]) auto
qed

theorem callJinaAPI_truncates_input_witness:
  "getApiKey demo_host demo_jina = (Inr (Some ''jina_demo''), demo_jina)
   \<and> truthy ''jina_demo''
   \<and> inputArray (Single (JString (replicate 9000 CHR ''a''))) = map JString [replicate 9000 CHR ''a'']
   \<and> ''input'' \<notin> dom (Map.empty :: string \<rightharpoonup> json)
   \<and> (\<exists>req. sent (snd (callJinaAPI demo_host (Single (JString (replicate 9000 CHR ''a''))) Map.empty
                          demo_jina)) = [req]
            \<and> body req ''input'' = Some (JsonArray [JsonString (replicate 8192 CHR ''a'')]))"
proof -
  have key: "getApiKey demo_host demo_jina = (Inr (Some ''jina_demo''), demo_jina)"
    by (simp add: getApiKey_def truthy_def demo_defs)
  have tr: "truthy ''jina_demo''" by (simp add: truthy_def)
  have inp: "inputArray (Single (JString (replicate 9000 CHR ''a''))) = map JString [replicate 9000 CHR ''a'']"
    by simp
  have opts: "''input'' \<notin> dom (Map.empty :: string \<rightharpoonup> json)" by simp
  have nothing_sent: "sent demo_jina = []" by (simp add: demo_defs)
  from callJinaAPI_truncates_input [OF key tr inp opts]
  obtain req where
    "sent (snd (callJinaAPI demo_host (Single (JString (replicate 9000 CHR ''a''))) Map.empty demo_jina))
       = sent demo_jina @ [req]"
    "body req ''input'' = Some (JsonArray (map JsonString (map (take 8192) [replicate 9000 CHR ''a''])))"
    by blast
  then have "sent (snd (callJinaAPI demo_host (Single (JString (replicate 9000 CHR ''a''))) Map.empty
                          demo_jina)) = [req]
            \<and> body req ''input'' = Some (JsonArray [JsonString (replicate 8192 CHR ''a'')])"
    using nothing_sent by simp
  with key tr inp opts show ?thesis by blast
qed

subsection \<open>No credential\<close>







subsection \<open>The embedding of the user's text\<close>




section \<open>Facts about the retrieval core\<close>

subsection \<open>The budgeter\<close>

lemma budget_walk_append:
  "budget_walk mx t (xs @ ys) =
     budget_walk mx t xs @ budget_walk mx (t + sum_list (map text_length (budget_walk mx t xs))) ys"
  by (induction xs arbitrary: t) (auto simp: add.assoc)

lemma budget_walk_subseq: "subseq (budget_walk mx t xs) xs"
  by (induction xs arbitrary: t) auto

lemma budget_walk_none_fit:
  "\<forall>m \<in> set xs. mx < t + text_length m \<Longrightarrow> budget_walk mx t xs = []"
  by (induction xs) auto

lemma budget_walk_bound:
  "0 \<le> t \<Longrightarrow> t + sum_list (map text_length (budget_walk mx t xs)) \<le> max mx t"
proof (induction xs arbitrary: t)
  case Nil
  then show ?case by simp
next
  case (Cons m ms)
  have len: "0 \<le> text_length m" by (simp add: text_length_def)
  show ?case
  proof (cases "t + text_length m \<le> mx")
    case True
    from Cons.prems len have "0 \<le> t + text_length m" by simp
    from Cons.IH [OF this] True
    have "t + text_length m + sum_list (map text_length (budget_walk mx (t + text_length m) ms)) \<le> mx"
      by simp
    with True show ?thesis by (simp add: add.assoc)
  next
    case False
    with Cons.IH [OF Cons.prems] show ?thesis by simp
  qed
qed

text \<open>
  C4. Wherever an item \<open>m\<close> stands in the ranked list, after any items \<open>pre\<close>, kept or
  skipped, and before any items \<open>post\<close>: \<open>m\<close> is in the selection exactly when the
  length of what was kept of \<open>pre\<close> plus the length of its text is within
  \<open>maxContextLength\<close>, and the walk goes on through \<open>post\<close> either way, with the running
  total unchanged when \<open>m\<close> was skipped. The selection keeps the ranked order, counts its
  items and sums their lengths, and stays within a budget that is not negative. On the
  specification's example, a top item of 50 characters, a second of 10 and a budget of 20,
  the selection is the second item alone, \<open>totalResults = 1\<close> and \<open>contextLength = 10\<close>.
\<close>

theorem budget_best_effort:
  "items (budget (pre @ m # post) mx) =
     items (budget pre mx)
       @ (if contextLength (budget pre mx) + text_length m \<le> mx then [m] else [])
       @ budget_walk mx (contextLength (budget (pre @ [m]) mx)) post
   \<and> contextLength (budget (pre @ [m]) mx) =
       contextLength (budget pre mx)
         + (if contextLength (budget pre mx) + text_length m \<le> mx then text_length m else 0)
   \<and> totalResults (budget ranked mx) = int (length (items (budget ranked mx)))
   \<and> contextLength (budget ranked mx) = sum_list (map text_length (items (budget ranked mx)))
   \<and> subseq (items (budget ranked mx)) ranked
   \<and> contextLength (budget ranked mx) \<le> max mx 0
   \<and> budget [item1, item2] 20 = \<lparr>totalResults = 1, contextLength = 10, items = [item2]\<rparr>
   \<and> map (\<lambda>m. item_id (item m)) (items (budget [item1, item2] 20)) = [2]"
proof -
  have example: "budget [item1, item2] 20 = \<lparr>totalResults = 1, contextLength = 10, items = [item2]\<rparr>"
    by (simp add: budget_def text_length_def item1_def item2_def)
  have ids: "map (\<lambda>m. item_id (item m)) (items (budget [item1, item2] 20)) = [2]"
    unfolding example by (simp add: item2_def)
  have bound: "contextLength (budget ranked mx) \<le> max mx 0"
    using budget_walk_bound [of 0 mx ranked] by (simp add: budget_def Let_def)
  have walk: "items (budget (pre @ m # post) mx) =
     items (budget pre mx)
       @ (if contextLength (budget pre mx) + text_length m \<le> mx then [m] else [])
       @ budget_walk mx (contextLength (budget (pre @ [m]) mx)) post"
    by (simp add: budget_def Let_def budget_walk_append)
  have total: "contextLength (budget (pre @ [m]) mx) =
       contextLength (budget pre mx)
         + (if contextLength (budget pre mx) + text_length m \<le> mx then text_length m else 0)"
    by (simp add: budget_def Let_def budget_walk_append)
  have rest: "totalResults (budget ranked mx) = int (length (items (budget ranked mx)))
      \<and> contextLength (budget ranked mx) = sum_list (map text_length (items (budget ranked mx)))
      \<and> subseq (items (budget ranked mx)) ranked"
    by (simp add: budget_def Let_def budget_walk_subseq)
  from walk total rest bound example ids show ?thesis by blast
qed

theorem budget_best_effort_witness:
  "items (budget ([item1] @ item2 # []) 20) = [item2]
   \<and> items (budget [item1] 20) = []
   \<and> contextLength (budget [item1] 20) + text_length item2 = 10
   \<and> contextLength (budget ([item1] @ [item2]) 20) = 10"
proof -
  have first: "budget [item1] 20 = \<lparr>totalResults = 0, contextLength = 0, items = []\<rparr>"
    by (simp add: budget_def text_length_def item1_def)
  have len: "text_length item2 = 10" by (simp add: text_length_def item2_def)
  from budget_best_effort [of "[item1]" item2 "[]" 20 "[item1, item2]"]
  show ?thesis by (simp add: first len)
qed

subsection \<open>The ranker\<close>

lemma eff_same_level:
  "match_level a = match_level b \<Longrightarrow>
     (effective_score bn st a \<ge> effective_score bn st b) = (score a \<ge> score b)"
  by (simp add: effective_score_def)

lemma sorted_desc_sort_key:
  "sorted_wrt (\<lambda>a b. f a \<ge> f b) (sort_key (\<lambda>m. - f m) (ms :: 'a list))" for f :: "'a \<Rightarrow> real"
proof -
  have "sorted (map (\<lambda>m. - f m) (sort_key (\<lambda>m. - f m) ms))" by (rule sorted_sort_key)
  then show ?thesis by (simp add: sorted_map)
qed

lemma demo_scores:
  "score_store (level_weighting demo_policy) [1, 0] (advanced demo_options) demo_store
     = Inr [\<lparr>item = doc_far, score = 0, match_level = Document\<rparr>,
            \<lparr>item = doc_near, score = 1, match_level = Document\<rparr>]"
  by (simp add: score_store_def similarity_score_def cosine_def magnitude_def dot_def
        demo_store_def demo_options_def doc_far_def doc_near_def)

lemma demo_rank: "rank demo_policy [1, 0] demo_store demo_options = Inr demo_ranked"
  unfolding rank_def demo_scores
  by (simp add: demo_ranked_def effective_score_def demo_policy_def demo_options_def)

text \<open>
  C5. Whatever the query, the corpus, the scoring mode, the priority strategy and the
  bonus, the ranked list is in descending order of effective score, and of two items of
  the same level the one that comes first has a raw score at least as high as the other's:
  no strategy inverts two items of one level.
\<close>

theorem rank_sorted_and_level_monotone:
  assumes "rank pol query store opts = Inr r"
  shows "sorted_wrt (\<lambda>a b. effective_score (bonus pol) (strategy opts) a
                            \<ge> effective_score (bonus pol) (strategy opts) b) r
       \<and> (\<forall>i j. i < j \<and> j < length r \<and> match_level (r ! i) = match_level (r ! j)
              \<longrightarrow> score (r ! i) \<ge> score (r ! j))"
proof -
  let ?eff = "effective_score (bonus pol) (strategy opts)"
  from assms obtain ms where r: "r = sort_key (\<lambda>m. - ?eff m) ms"
    by (auto simp: rank_def split: sum.splits)
  have s: "sorted_wrt (\<lambda>a b. ?eff a \<ge> ?eff b) r" unfolding r by (rule sorted_desc_sort_key)
  have "\<forall>i j. i < j \<and> j < length r \<and> match_level (r ! i) = match_level (r ! j)
              \<longrightarrow> score (r ! i) \<ge> score (r ! j)"
  proof (intro allI impI)
    fix i j assume h: "i < j \<and> j < length r \<and> match_level (r ! i) = match_level (r ! j)"
    then have "?eff (r ! i) \<ge> ?eff (r ! j)" using s by (simp add: sorted_wrt_iff_nth_less)
    with h show "score (r ! i) \<ge> score (r ! j)" by (simp add: eff_same_level)
  qed
  with s show ?thesis by blast
qed

theorem rank_sorted_and_level_monotone_witness:
  "rank demo_policy [1, 0] demo_store demo_options = Inr demo_ranked
   \<and> sorted_wrt (\<lambda>a b. effective_score (bonus demo_policy) (strategy demo_options) a
                        \<ge> effective_score (bonus demo_policy) (strategy demo_options) b) demo_ranked
   \<and> match_level (demo_ranked ! 0) = match_level (demo_ranked ! 1)
   \<and> score (demo_ranked ! 0) \<ge> score (demo_ranked ! 1)"
proof -
  have same: "0 < (1::nat) \<and> 1 < length demo_ranked
                \<and> match_level (demo_ranked ! 0) = match_level (demo_ranked ! 1)"
    by (simp add: demo_ranked_def)
  from rank_sorted_and_level_monotone [OF demo_rank] same demo_rank
  show ?thesis by blast
qed

subsection \<open>The scorer\<close>





subsection \<open>Determinism\<close>

lemma rank_meets_contract:
  "(rank pol query store opts = Inr r) = ranked_context pol query store opts r"
proof (cases "score_store (level_weighting pol) query (advanced opts) store")
  case (Inl e)
  then show ?thesis by (simp add: rank_def ranked_context_def)
next
  case (Inr ms)
  let ?eff = "effective_score (bonus pol) (strategy opts)"
  let ?f = "\<lambda>m. - ?eff m"
  have flt: "filter (\<lambda>x. ?f k = ?f x) xs = filter (\<lambda>m. ?eff m = ?eff k) xs" for k xs
    by (rule filter_cong) auto
  show ?thesis
  proof
    assume "rank pol query store opts = Inr r"
    with Inr have r: "r = sort_key ?f ms" by (simp add: rank_def)
    have "filter (\<lambda>m. ?eff m = k) r = filter (\<lambda>m. ?eff m = k) ms" for k
    proof -
      have "filter (\<lambda>y. ?f y = - k) (sort_key ?f ms) = filter (\<lambda>y. ?f y = - k) ms"
        by (rule sort_key_stable)
      then show ?thesis by (simp add: r)
    qed
    moreover have "sorted_wrt (\<lambda>a b. ?eff a \<ge> ?eff b) r" unfolding r by (rule sorted_desc_sort_key)
    moreover have "mset r = mset ms" by (simp add: r)
    ultimately show "ranked_context pol query store opts r"
      using Inr by (simp add: ranked_context_def)
  next
    assume "ranked_context pol query store opts r"
    with Inr have m: "mset r = mset ms"
      and s: "sorted_wrt (\<lambda>a b. ?eff a \<ge> ?eff b) r"
      and f: "\<And>k. filter (\<lambda>m. ?eff m = k) r = filter (\<lambda>m. ?eff m = k) ms"
      by (simp_all add: ranked_context_def)
    have "sort_key ?f ms = r"
    proof (rule properties_for_sort_key)
      show "mset r = mset ms" by (rule m)
      show "sorted (map ?f r)" using s by (simp add: sorted_map)
      fix k assume "k \<in> set r"
      show "filter (\<lambda>x. ?f k = ?f x) r = filter (\<lambda>x. ?f k = ?f x) ms"
        unfolding flt by (rule f)
    qed
    with Inr show "rank pol query store opts = Inr r" by (simp add: rank_def)
  qed
qed

text \<open>
  C7. The score of the model reads the query, the candidate, the level and the mode, and
  the weighting of the advanced mode reads the query, the candidate and the level: there
  is nothing else for it to read. On top of that the ranker's contract leaves no freedom:
  two rankings that both meet it, for the same query, corpus, options and policy, are the
  same list, item by item, and it is the list \<open>rank\<close> computes. So two runs of any
  implementation of the contract on unchanged inputs give identical orderings.
\<close>

theorem ranking_determined:
  assumes "ranked_context pol query store opts r1"
    and "ranked_context pol query store opts r2"
  shows "r1 = r2 \<and> rank pol query store opts = Inr r1"
  using assms rank_meets_contract [of pol query store opts] by (metis sum.inject(2))

theorem ranking_determined_witness:
  "ranked_context demo_policy [1, 0] demo_store demo_options demo_ranked
   \<and> rank demo_policy [1, 0] demo_store demo_options = Inr demo_ranked"
proof -
  have c: "ranked_context demo_policy [1, 0] demo_store demo_options demo_ranked"
    using rank_meets_contract demo_rank by blast
  from ranking_determined [OF c c] c show ?thesis by simp
qed

section \<open>Facts about the page\<close>

subsection \<open>What a run leaves alone\<close>

lemma keeps_refl: "keeps a a"
  by (simp add: keeps_def)

lemma keeps_trans: "keeps a b \<Longrightarrow> keeps b c \<Longrightarrow> keeps a c"
  by (simp add: keeps_def)

lemma keeps_showStatus: "keeps a (showStatus m t a)"
  by (simp add: keeps_def showStatus_def split: element.splits)

lemma keeps_showStatus': "keeps a b \<Longrightarrow> keeps a (showStatus m t b)"
  using keeps_showStatus keeps_trans by blast

lemma keeps_jina: "keeps a b \<Longrightarrow> keeps a (b\<lparr>jina := j\<rparr>)"
  by (simp add: keeps_def)

lemma keeps_calls: "keeps a b \<Longrightarrow> keeps a (b\<lparr>calls := cs\<rparr>)"
  by (simp add: keeps_def)

lemma keepsD:
  "keeps a b \<Longrightarrow> advancedScoring (page b) = advancedScoring (page a)
     \<and> priorityStrategy (page b) = priorityStrategy (page a) \<and> vectorData b = vectorData a
     \<and> documentDatabase b = documentDatabase a \<and> currentSourceLang b = currentSourceLang a
     \<and> translationOutput (page b) = translationOutput (page a)
     \<and> sourceTextArea (page b) = sourceTextArea (page a)
     \<and> contextInfo (page b) = contextInfo (page a)
     \<and> (statusIndicator (page b) = Missing) = (statusIndicator (page a) = Missing)"
  by (simp add: keeps_def)

lemma showStatus_jina: "jina (showStatus m t a) = jina a"
  by (simp add: showStatus_def split: element.splits)

lemma showStatus_calls: "calls (showStatus m t a) = calls a"
  by (simp add: showStatus_def split: element.splits)

lemma showStatus_shown:
  "shown (showStatus m t a) = (if statusIndicator (page a) = Missing then shown a else shown a @ [(m, t)])"
  by (simp add: showStatus_def split: element.splits)

lemma showStatus_missing:
  "(statusIndicator (page (showStatus m t a)) = Missing) = (statusIndicator (page a) = Missing)"
  by (simp add: showStatus_def split: element.splits)

lemma keeps_translation_failed: "keeps a b \<Longrightarrow> keeps a (translation_failed h e b)"
  by (simp add: translation_failed_def keeps_showStatus')

lemma embed_source_keeps:
  "embed_source h t a = (r, a1) \<Longrightarrow> keeps a a1 \<and> calls a1 = calls a"
  by (auto simp: embed_source_def Let_def showStatus_calls showStatus_jina
           intro!: keeps_showStatus' keeps_jina keeps_refl
           split: prod.splits sum.splits if_splits)

lemma search_context_keeps:
  "search_context c ue a = (r, a1) \<Longrightarrow> keeps a a1 \<and> jina a1 = jina a"
  by (auto simp: search_context_def Let_def showStatus_calls showStatus_jina
           intro!: keeps_showStatus' keeps_calls keeps_refl
           split: prod.splits sum.splits if_splits)

lemma check_translation_api_keeps:
  "check_translation_api c a = (r, a1) \<Longrightarrow> keeps a a1 \<and> jina a1 = jina a"
  by (auto simp: check_translation_api_def Let_def showStatus_calls showStatus_jina
           intro!: keeps_showStatus' keeps_calls keeps_refl
           split: prod.splits sum.splits if_splits option.splits)

lemma handleTranslation_request_keeps:
  "handleTranslation_request h c a = (r, a1) \<Longrightarrow> keeps a a1"
  by (auto simp: handleTranslation_request_def Let_def
           intro!: keeps_showStatus' keeps_calls keeps_refl keeps_translation_failed
           dest!: embed_source_keeps search_context_keeps check_translation_api_keeps
           elim: keeps_trans
           split: prod.splits sum.splits if_splits option.splits element.splits bool.splits)

subsection \<open>A search that finds nothing\<close>

text \<open>The budgeter of the specification selects nothing from an empty ranking, and
  nothing where no text fits the budget; \<open>main.js\<close> then reads zero results.\<close>

lemma budget_nothing_fits:
  "ranked = [] \<or> (\<forall>m \<in> set ranked. mx < text_length m) \<Longrightarrow>
     budget ranked mx = \<lparr>totalResults = 0, contextLength = 0, items = []\<rparr>
     \<and> context_results_of (budget ranked mx) = no_context"
  using budget_walk_none_fit [of ranked mx 0]
  by (auto simp: budget_def context_results_of_def no_context_def)

lemma request_without_context:
  assumes src: "sourceTextArea (page a) = Element v" "truthy (trim v)"
    and embedded: "embed_source h (trim v) a = (Inr ue, a1)"
    and found: "findSimilarContext c (embedding ue) (vectorData a) (page_options a) = Inr cr"
    and empty: "totalResults (metadata cr) \<le> 0"
    and ready: "isDeepSeekApiReady c = Inr True"
  shows "\<exists>a'. handleTranslation_request h c a = (Some (trim v, cr, getCurrentLanguageDirection a), a')
           \<and> calls a' = calls a @ [FindSimilarContext (embedding ue) (page_options a), IsDeepSeekApiReady,
                                     TranslateWithContext (trim v) cr (getCurrentLanguageDirection a)]
           \<and> jina a' = jina a1
           \<and> (statusIndicator (page a) \<noteq> Missing \<longrightarrow>
                (''No relevant context found - translating without corpus assistance'', ''error'')
                  \<in> set (shown a'))"
proof -
  from embed_source_keeps [OF embedded] have k: "keeps a a1" and cs: "calls a1 = calls a" by simp_all
  note kd = keepsD [OF k]
  have opts: "page_options a1 = page_options a" using kd by (simp add: page_options_def)
  let ?a2 = "showStatus ''No relevant context found - translating without corpus assistance'' ''error''
               ((showStatus ''Searching corpus for relevant context...'' ''loading'' a1)
                  \<lparr>calls := calls a1 @ [FindSimilarContext (embedding ue) (page_options a)]\<rparr>)"
  have search: "search_context c ue a1 = (Inr cr, ?a2)"
    using found empty kd opts by (simp add: search_context_def Let_def)
  let ?a3 = "(showStatus ''Checking translation API...'' ''loading'' ?a2)\<lparr>calls := calls ?a2 @ [IsDeepSeekApiReady]\<rparr>"
  have check: "check_translation_api c ?a2 = (Inr True, ?a3)"
    using ready by (simp add: check_translation_api_def Let_def)
  let ?a4 = "showStatus ''Translating with context...'' ''loading'' ?a3"
  have "keeps a ?a4"
    by (intro keeps_showStatus' keeps_calls k)
  then have lang: "getCurrentLanguageDirection ?a4 = getCurrentLanguageDirection a"
    by (simp add: getCurrentLanguageDirection_def keeps_def)
  let ?a' = "?a4\<lparr>calls := calls ?a4 @ [TranslateWithContext (trim v) cr (getCurrentLanguageDirection a)]\<rparr>"
  have req: "handleTranslation_request h c a = (Some (trim v, cr, getCurrentLanguageDirection a), ?a')"
    using src embedded search check lang
    by (simp add: handleTranslation_request_def Let_def)
  have c': "calls ?a' = calls a @ [FindSimilarContext (embedding ue) (page_options a), IsDeepSeekApiReady,
                                   TranslateWithContext (trim v) cr (getCurrentLanguageDirection a)]"
    using cs by (simp add: showStatus_calls)
  have j': "jina ?a' = jina a1" by (simp add: showStatus_jina)
  have s': "statusIndicator (page a) \<noteq> Missing \<longrightarrow>
              (''No relevant context found - translating without corpus assistance'', ''error'') \<in> set (shown ?a')"
    using kd by (simp add: showStatus_shown showStatus_missing)
  show ?thesis
    by (intro exI [of _ ?a'] conjI) (fact req c' j' s')+
qed

lemma response_writes_output:
  "translationOutput (page a) \<noteq> Missing \<Longrightarrow>
     translationOutput (page (handleTranslation_response h (Inr tr) a)) = Element (TranslationResult (translatedText tr))"
  by (auto simp: handleTranslation_response_def updateTranslationOutput_def Let_def showStatus_def
           split: element.splits)

lemma response_context_info:
  "contextInfo (page a) \<noteq> Missing \<Longrightarrow>
     contextInfo (page (handleTranslation_response h (Inr tr) a)) =
       (case contextUsed tr of
          None \<Rightarrow> Element NoContextMessage
        | Some cs \<Rightarrow> if cs = [] then Element NoContextMessage else Element (ContextItems cs))"
  by (auto simp: handleTranslation_response_def updateTranslationOutput_def Let_def showStatus_def
           split: element.splits option.splits)

lemma demo_embed:
  assumes "API_KEY (jina a) = Some ''jina_demo''" "truthy t"
  shows "\<exists>ue a1. embed_source demo_host t a = (Inr ue, a1) \<and> API_KEY (jina a1) = Some ''jina_demo''"
  using assms
  by (simp add: embed_source_def jina_defs demo_defs showStatus_jina)

lemma trim_plain: "trim ''hello'' = ''hello''" "trim ''goodbye'' = ''goodbye''"
  by (simp_all add: trim_def is_space_def)

text \<open>
  C3. When the search answers without an error and with no result (what the budgeter gives
  for an empty corpus or when nothing fits), the handler does not stop: it shows that no
  context was found and that it translates without the corpus, and, the translation API
  being ready, it calls \<open>translateWithContext\<close> with the text and that empty result.
  The run then ends as the answer says; a successful answer is written to the result area,
  and with no context used the context area says that none was found.
\<close>

theorem no_context_still_translates:
  assumes src: "sourceTextArea (page a) = Element v" "truthy (trim v)"
    and embedded: "embed_source h (trim v) a = (Inr ue, a1)"
    and found: "findSimilarContext c (embedding ue) (vectorData a) (page_options a) = Inr cr"
    and empty: "results cr = []" "totalResults (metadata cr) = 0"
    and ready: "isDeepSeekApiReady c = Inr True"
  shows "\<exists>a'. handleTranslation_request h c a = (Some (trim v, cr, getCurrentLanguageDirection a), a')
           \<and> last (calls a') = TranslateWithContext (trim v) cr (getCurrentLanguageDirection a)
           \<and> (statusIndicator (page a) \<noteq> Missing \<longrightarrow>
                (''No relevant context found - translating without corpus assistance'', ''error'')
                  \<in> set (shown a'))
           \<and> handleTranslation h c a =
               handleTranslation_response h
                 (translateWithContext c (trim v) cr (getCurrentLanguageDirection a) (documentDatabase a)) a'
           \<and> (\<forall>tr. translateWithContext c (trim v) cr (getCurrentLanguageDirection a) (documentDatabase a)
                       = Inr tr \<and> translationOutput (page a) \<noteq> Missing
                  \<longrightarrow> translationOutput (page (handleTranslation h c a))
                        = Element (TranslationResult (translatedText tr)))
           \<and> (\<forall>tr. translateWithContext c (trim v) cr (getCurrentLanguageDirection a) (documentDatabase a)
                       = Inr tr \<and> contextInfo (page a) \<noteq> Missing
                     \<and> (contextUsed tr = None \<or> contextUsed tr = Some [])
                  \<longrightarrow> contextInfo (page (handleTranslation h c a)) = Element NoContextMessage)"
proof -
  have le: "totalResults (metadata cr) \<le> 0" using empty by simp
  from request_without_context [OF src embedded found le ready] obtain a' where
    req: "handleTranslation_request h c a = (Some (trim v, cr, getCurrentLanguageDirection a), a')"
    and cs: "calls a' = calls a @ [FindSimilarContext (embedding ue) (page_options a), IsDeepSeekApiReady,
                                     TranslateWithContext (trim v) cr (getCurrentLanguageDirection a)]"
    and sh: "statusIndicator (page a) \<noteq> Missing \<longrightarrow>
                (''No relevant context found - translating without corpus assistance'', ''error'')
                  \<in> set (shown a')"
    by blast
  note kd = keepsD [OF handleTranslation_request_keeps [OF req]]
  let ?answer = "translateWithContext c (trim v) cr (getCurrentLanguageDirection a) (documentDatabase a)"
  have run: "handleTranslation h c a = handleTranslation_response h ?answer a'"
    using req kd by (simp add: handleTranslation_def)
  have lst: "last (calls a') = TranslateWithContext (trim v) cr (getCurrentLanguageDirection a)"
    by (simp add: cs)
  have out: "\<forall>tr. ?answer = Inr tr \<and> translationOutput (page a) \<noteq> Missing
                  \<longrightarrow> translationOutput (page (handleTranslation h c a))
                        = Element (TranslationResult (translatedText tr))"
    using kd by (simp add: run response_writes_output)
  have ctx: "\<forall>tr. ?answer = Inr tr \<and> contextInfo (page a) \<noteq> Missing
                     \<and> (contextUsed tr = None \<or> contextUsed tr = Some [])
                  \<longrightarrow> contextInfo (page (handleTranslation h c a)) = Element NoContextMessage"
    using kd by (auto simp: run response_context_info)
  show ?thesis
    by (intro exI [of _ a'] conjI) (fact req lst sh run out ctx)+
qed

theorem no_context_still_translates_witness:
  "\<exists>a'. handleTranslation_request demo_host demo_collaborators
           (demo_app\<lparr>page := demo_page\<lparr>sourceTextArea := Element ''hello''\<rparr>\<rparr>)
         = (Some (''hello'', no_context, \<lparr>source_lang = ''en'', target_lang = ''es''\<rparr>), a')
       \<and> last (calls a') = TranslateWithContext ''hello'' no_context \<lparr>source_lang = ''en'', target_lang = ''es''\<rparr>
       \<and> (''No relevant context found - translating without corpus assistance'', ''error'') \<in> set (shown a')
       \<and> translationOutput (page (handleTranslation demo_host demo_collaborators
                                     (demo_app\<lparr>page := demo_page\<lparr>sourceTextArea := Element ''hello''\<rparr>\<rparr>)))
           = Element (TranslationResult ''hello'')
       \<and> contextInfo (page (handleTranslation demo_host demo_collaborators
                               (demo_app\<lparr>page := demo_page\<lparr>sourceTextArea := Element ''hello''\<rparr>\<rparr>)))
           = Element NoContextMessage"
proof -
  let ?a = "demo_app\<lparr>page := demo_page\<lparr>sourceTextArea := Element ''hello''\<rparr>\<rparr>"
  have src: "sourceTextArea (page ?a) = Element ''hello''" "truthy (trim ''hello'')"
    by (simp_all add: trim_plain truthy_def)
  have key: "API_KEY (jina ?a) = Some ''jina_demo''" by (simp add: demo_app_def demo_defs)
  from demo_embed [OF key src(2)] obtain ue a1 where
    emb: "embed_source demo_host (trim ''hello'') ?a = (Inr ue, a1)" by blast
  have found: "findSimilarContext demo_collaborators (embedding ue) (vectorData ?a) (page_options ?a) = Inr no_context"
    by (simp add: demo_collaborators_def)
  have empty: "results no_context = []" "totalResults (metadata no_context) = 0"
    by (simp_all add: no_context_def)
  have ready: "isDeepSeekApiReady demo_collaborators = Inr True" by (simp add: demo_collaborators_def)
  have lang: "getCurrentLanguageDirection ?a = \<lparr>source_lang = ''en'', target_lang = ''es''\<rparr>"
    by (simp add: getCurrentLanguageDirection_def demo_app_def)
  have answer: "translateWithContext demo_collaborators (trim ''hello'') no_context
                  (getCurrentLanguageDirection ?a) (documentDatabase ?a)
                = Inr \<lparr>translatedText = ''hello'', contextUsed = None\<rparr>"
    by (simp add: demo_collaborators_def trim_plain)
  have present: "statusIndicator (page ?a) \<noteq> Missing" "translationOutput (page ?a) \<noteq> Missing"
      "contextInfo (page ?a) \<noteq> Missing"
    by (simp_all add: demo_page_def)
  from no_context_still_translates [OF src emb found empty ready]
  show ?thesis
    using answer present by (simp add: trim_plain lang) blast
qed

subsection \<open>Two requests at once\<close>

lemma response_keeps_element:
  "(translationOutput (page (handleTranslation_response h r a)) = Missing) = (translationOutput (page a) = Missing)"
  by (auto simp: handleTranslation_response_def updateTranslationOutput_def Let_def showStatus_def
        translation_failed_def
           split: element.splits option.splits sum.splits)

lemma step_keeps_element:
  "(translationOutput (page (app_state (step h ss ev))) = Missing) = (translationOutput (page (app_state ss)) = Missing)"
proof (cases ev)
  case (TypeText v)
  then show ?thesis by (simp add: step_def split: element.splits)
next
  case (Click c)
  obtain r a1 where req: "handleTranslation_request h c (app_state ss) = (r, a1)"
    by (cases "handleTranslation_request h c (app_state ss)")
  from keepsD [OF handleTranslation_request_keeps [OF req]] Click req show ?thesis
    by (cases r) (simp_all add: step_def)
next
  case (Answer n r)
  then show ?thesis by (simp add: step_def response_keeps_element)
qed

lemma run_events_keeps_element:
  "(translationOutput (page (app_state (run_events h ss evs))) = Missing) = (translationOutput (page (app_state ss)) = Missing)"
  unfolding run_events_def
  by (induction evs arbitrary: ss) (simp_all add: step_keeps_element)

lemma run_events_snoc: "run_events h ss (evs @ [ev]) = step h (run_events h ss evs) ev"
  by (simp add: run_events_def)

lemma requested_texts_append: "requested_texts (xs @ ys) = requested_texts xs @ requested_texts ys"
  by (induction xs rule: requested_texts.induct) simp_all

lemma observe_type:
  assumes "observe ss = (Element u, out, k, p, i, ts)"
  shows "observe (step h ss (TypeText v)) = (Element v, out, k, p, i, ts)"
  using assms by (simp add: observe_def step_def)

lemma observe_answer:
  assumes "observe ss = (src, Element prev, k, p, i, ts)" "n \<in> set p"
  shows "observe (step h ss (Answer n (Inr tr))) =
           (src, Element (TranslationResult (translatedText tr)), k, removeAll n p, i, ts)"
  using assms
  by (auto simp: observe_def step_def handleTranslation_response_def updateTranslationOutput_def Let_def
        showStatus_def split: element.splits)

lemma observe_click:
  assumes obs: "observe ss = (Element v, out, Some ''jina_demo'', p, i, ts)" and nonempty: "truthy (trim v)"
  shows "observe (step demo_host ss (Click demo_collaborators)) =
           (Element v, out, Some ''jina_demo'', p @ [i], Suc i, ts @ [trim v])"
proof -
  let ?a = "app_state ss"
  from obs have src: "sourceTextArea (page ?a) = Element v" and key: "API_KEY (jina ?a) = Some ''jina_demo''"
    and out: "translationOutput (page ?a) = out" and p: "pending ss = p" and i: "issued ss = i"
    and ts: "requested_texts (calls ?a) = ts"
    by (simp_all add: observe_def)
  from demo_embed [OF key nonempty] obtain ue a1 where
    emb: "embed_source demo_host (trim v) ?a = (Inr ue, a1)" and key1: "API_KEY (jina a1) = Some ''jina_demo''"
    by blast
  have found: "findSimilarContext demo_collaborators (embedding ue) (vectorData ?a) (page_options ?a) = Inr no_context"
    by (simp add: demo_collaborators_def)
  have empty: "totalResults (metadata no_context) \<le> 0" by (simp add: no_context_def)
  have ready: "isDeepSeekApiReady demo_collaborators = Inr True" by (simp add: demo_collaborators_def)
  from request_without_context [OF src nonempty emb found empty ready] obtain a' where
    req: "handleTranslation_request demo_host demo_collaborators ?a
            = (Some (trim v, no_context, getCurrentLanguageDirection ?a), a')"
    and cs: "calls a' = calls ?a @ [FindSimilarContext (embedding ue) (page_options ?a), IsDeepSeekApiReady,
                                     TranslateWithContext (trim v) no_context (getCurrentLanguageDirection ?a)]"
    and j: "jina a' = jina a1"
    by blast
  note kd = keepsD [OF handleTranslation_request_keeps [OF req]]
  have st: "step demo_host ss (Click demo_collaborators)
              = ss\<lparr>app_state := a', pending := pending ss @ [issued ss], issued := Suc (issued ss)\<rparr>"
    using req by (simp add: step_def)
  show ?thesis
    unfolding st using kd src out p i ts key1 j cs
    by (simp add: observe_def requested_texts_append)
qed

lemma observe_demo:
  "observe demo_session = (Element [], Element InitialOutput, Some ''jina_demo'', [], 0, [])"
  by (simp add: observe_def demo_session_def demo_app_def demo_page_def demo_defs)

lemma observe_two_clicks:
  "observe (run_events demo_host demo_session two_clicks) =
     (Element ''goodbye'', Element InitialOutput, Some ''jina_demo'', [0, 1], 2, [''hello'', ''goodbye''])"
proof -
  let ?s1 = "step demo_host demo_session (TypeText ''hello'')"
  let ?s2 = "step demo_host ?s1 (Click demo_collaborators)"
  let ?s3 = "step demo_host ?s2 (TypeText ''goodbye'')"
  let ?s4 = "step demo_host ?s3 (Click demo_collaborators)"
  have run: "run_events demo_host demo_session two_clicks = ?s4"
    by (simp add: run_events_def two_clicks_def)
  have o1: "observe ?s1 = (Element ''hello'', Element InitialOutput, Some ''jina_demo'', [], 0, [])"
    by (rule observe_type [OF observe_demo])
  have "truthy (trim ''hello'')" by (simp add: trim_plain truthy_def)
  from observe_click [OF o1 this]
  have o2: "observe ?s2 = (Element ''hello'', Element InitialOutput, Some ''jina_demo'', [0], 1, [''hello''])"
    by (simp add: trim_plain)
  have o3: "observe ?s3 = (Element ''goodbye'', Element InitialOutput, Some ''jina_demo'', [0], 1, [''hello''])"
    by (rule observe_type [OF o2])
  have "truthy (trim ''goodbye'')" by (simp add: trim_plain truthy_def)
  from observe_click [OF o3 this]
  have o4: "observe ?s4 = (Element ''goodbye'', Element InitialOutput, Some ''jina_demo'', [0, 1], 2, [''hello'', ''goodbye''])"
    by (simp add: trim_plain numeral_2_eq_2)
  show ?thesis unfolding run by (rule o4)
qed

lemma observe_newer_first:
  "observe (run_events demo_host demo_session newer_first) =
     (Element ''goodbye'', Element (TranslationResult ''adios''), Some ''jina_demo'', [0], 2, [''hello'', ''goodbye''])"
proof -
  have "(1::nat) \<in> set [0, 1]" by simp
  from observe_answer [OF observe_two_clicks this, of demo_host "\<lparr>translatedText = ''adios'', contextUsed = None\<rparr>"]
  show ?thesis by (simp add: newer_first_def run_events_snoc)
qed

lemma observe_stale_last:
  "observe (run_events demo_host demo_session stale_last) =
     (Element ''goodbye'', Element (TranslationResult ''hola''), Some ''jina_demo'', [], 2, [''hello'', ''goodbye''])"
proof -
  have "(0::nat) \<in> set [0]" by simp
  from observe_answer [OF observe_newer_first this, of demo_host "\<lparr>translatedText = ''hola'', contextUsed = None\<rparr>"]
  show ?thesis by (simp add: stale_last_def run_events_snoc)
qed

text \<open>
  C2, as the code has it. The user asks for \<open>hello\<close> and, while that request is pending,
  for \<open>goodbye\<close>: the second click is handled like the first and both requests are
  pending. The answer to the newer request arrives and is shown; then the answer to the
  older one arrives and replaces it in the result area.
\<close>

theorem stale_answer_overwrites_counterexample:
  "requested_texts (calls (app_state (run_events demo_host demo_session two_clicks))) = [''hello'', ''goodbye'']
   \<and> pending (run_events demo_host demo_session two_clicks) = [0, 1]
   \<and> translationOutput (page (app_state (run_events demo_host demo_session newer_first)))
       = Element (TranslationResult ''adios'')
   \<and> translationOutput (page (app_state (run_events demo_host demo_session stale_last)))
       = Element (TranslationResult ''hola'')"
  using observe_two_clicks observe_newer_first observe_stale_last
  by (simp add: observe_def)

text \<open>
  C2, amended. The listener runs the handler on every click, whatever is pending: a click
  whose run reaches the translation request adds a pending run. And the answer of a
  pending run is written to the result area when it arrives, whatever was asked or shown
  since: after any events, the result area holds the translation whose answer arrived
  last, not that of the request made last.
\<close>

theorem last_answer_is_shown:
  assumes "n \<in> set (pending (run_events h ss evs))"
    and "translationOutput (page (app_state ss)) \<noteq> Missing"
  shows "translationOutput (page (app_state (run_events h ss (evs @ [Answer n (Inr tr)]))))
           = Element (TranslationResult (translatedText tr))
       \<and> (\<forall>c req a1. handleTranslation_request h c (app_state (run_events h ss evs)) = (Some req, a1)
             \<longrightarrow> pending (run_events h ss (evs @ [Click c]))
                   = pending (run_events h ss evs) @ [issued (run_events h ss evs)])"
  using assms
  by (simp add: run_events_snoc step_def response_writes_output run_events_keeps_element)

theorem last_answer_is_shown_witness:
  "0 \<in> set (pending (run_events demo_host demo_session newer_first))
   \<and> translationOutput (page (app_state demo_session)) \<noteq> Missing
   \<and> translationOutput (page (app_state (run_events demo_host demo_session
        (newer_first @ [Answer 0 (Inr \<lparr>translatedText = ''hola'', contextUsed = None\<rparr>)]))))
       = Element (TranslationResult ''hola'')"
proof -
  have pend: "0 \<in> set (pending (run_events demo_host demo_session newer_first))"
    using observe_newer_first by (simp add: observe_def)
  have present: "translationOutput (page (app_state demo_session)) \<noteq> Missing"
    by (simp add: demo_session_def demo_app_def demo_page_def)
  from last_answer_is_shown [OF pend present, of "\<lparr>translatedText = ''hola'', contextUsed = None\<rparr>"]
    pend present
  show ?thesis by simp
qed

end
